theory Spec2Isabelle
  imports Main
begin

section \<open>Task management backend (backend/server.py)\<close>

text \<open>
  A shallow embedding of the FastAPI handlers of \<^verbatim>\<open>backend/server.py\<close>. Each handler
  becomes a function from the database state (and the values the handler reads from its
  surroundings: the resolved caller, the clock, a fresh uuid) to the new state and the
  outcome of the call. An outcome is \<open>Inr\<close> of the response or \<open>Inl\<close> of the error raised.
  Strings are lists of characters; \<open>length\<close> is Python's \<open>len\<close>.
\<close>

subsection \<open>Errors\<close>

text \<open>
  \<open>HTTPException code detail headers\<close> is the exception the handlers raise themselves.
  \<open>RequestValidationError\<close> is raised when pydantic rejects the request model (a field
  constraint or a \<open>field_validator\<close> raising \<open>ValueError\<close>) before the handler runs; FastAPI
  answers it with status 422. \<open>ServerError\<close> stands for any exception that escapes the
  handler body (a pydantic \<open>ValidationError\<close> from building a response model, a
  \<open>TypeError\<close>); FastAPI answers it with status 500.
\<close>

datatype error =
    HTTPException nat string "(string \<times> string) list"
  | RequestValidationError
  | ServerError

definition status_code :: "error \<Rightarrow> nat" where
  "status_code e =
     (case e of HTTPException c _ _ \<Rightarrow> c | RequestValidationError \<Rightarrow> 422 | ServerError \<Rightarrow> 500)"

definition BadRequest :: "string \<Rightarrow> error" where
  "BadRequest detail = HTTPException 400 detail []"

definition NotFound :: "string \<Rightarrow> error" where
  "NotFound detail = HTTPException 404 detail []"

subsection \<open>Time stamps\<close>

text \<open>
  A \<open>datetime\<close> is an instant in seconds. The store keeps time stamps as ISO-8601 strings:
  \<open>isoformat\<close> writes one and \<open>fromisoformat\<close> reads it back. The text of the string is not
  modelled, only that reading returns the instant written.
\<close>

type_synonym datetime = int

datatype isostring = Iso datetime

definition isoformat :: "datetime \<Rightarrow> isostring" where
  "isoformat t = Iso t"

fun fromisoformat :: "isostring \<Rightarrow> datetime" where
  "fromisoformat (Iso t) = t"

subsection \<open>Documents and the database\<close>

text \<open>
  A field of a partial-update body is absent from the JSON object (\<open>Unset\<close>), or present
  with \<open>null\<close> (\<open>Given None\<close>) or with a value (\<open>Given (Some v)\<close>). This is what
  \<open>model_dump(exclude_unset=True)\<close> keeps apart.
\<close>

datatype 'a field = Unset | Given "'a option"

text \<open>
  A user document. \<open>username\<close> and \<open>email\<close> can hold \<open>null\<close>, because \<open>UserUpdate\<close> declares
  them \<open>Optional\<close> and the update writes what it is given.
\<close>

record user_doc =
  u_id :: string
  u_username :: "string option"
  u_email :: "string option"
  u_password :: string
  u_full_name :: "string option"
  u_created_at :: isostring

text \<open>
  A task dictionary; \<open>'d\<close> is the representation of time stamps: \<open>isostring\<close> in the store,
  \<open>datetime\<close> after the handler converted them back. \<open>title\<close> and \<open>status\<close> can hold
  \<open>null\<close>, because \<open>TaskUpdate\<close> declares them \<open>Optional\<close>.
\<close>

record 'd task_dict =
  t_id :: string
  t_title :: "string option"
  t_description :: "string option"
  t_status :: "string option"
  t_due_date :: "'d option"
  t_created_at :: 'd
  t_user_id :: string

type_synonym task_doc = "isostring task_dict"

record db =
  users :: "user_doc list"
  tasks :: "task_doc list"

definition empty_db :: db where
  "empty_db = \<lparr>users = [], tasks = []\<rparr>"

subsection \<open>Collection primitives\<close>

text \<open>
  A collection is the list of its documents in natural (insertion) order. A query is a
  predicate on documents. \<open>find_one\<close> returns the first match, \<open>update_one\<close> rewrites the
  first match, \<open>delete_one\<close> removes the first match and reports \<open>deleted_count\<close>,
  \<open>delete_many\<close> removes every match, \<open>find_to_list q n\<close> is \<open>find(q).to_list(n)\<close>.
\<close>

definition find_one :: "('a \<Rightarrow> bool) \<Rightarrow> 'a list \<Rightarrow> 'a option" where
  "find_one q c = List.find q c"

definition insert_one :: "'a \<Rightarrow> 'a list \<Rightarrow> 'a list" where
  "insert_one d c = c @ [d]"

fun update_one :: "('a \<Rightarrow> bool) \<Rightarrow> ('a \<Rightarrow> 'a) \<Rightarrow> 'a list \<Rightarrow> 'a list" where
  "update_one q f [] = []"
| "update_one q f (d # c) = (if q d then f d # c else d # update_one q f c)"

fun delete_one :: "('a \<Rightarrow> bool) \<Rightarrow> 'a list \<Rightarrow> 'a list \<times> nat" where
  "delete_one q [] = ([], 0)"
| "delete_one q (d # c) =
     (if q d then (c, 1) else (case delete_one q c of (c', n) \<Rightarrow> (d # c', n)))"

definition delete_many :: "('a \<Rightarrow> bool) \<Rightarrow> 'a list \<Rightarrow> 'a list" where
  "delete_many q c = filter (\<lambda>d. \<not> q d) c"

definition find_to_list :: "('a \<Rightarrow> bool) \<Rightarrow> nat \<Rightarrow> 'a list \<Rightarrow> 'a list" where
  "find_to_list q n c = take n (filter q c)"

subsection \<open>Libraries and configuration\<close>

text \<open>
  What the handlers take from outside the repository, as parameters: the signing secret,
  PyJWT's \<open>jwt.encode\<close> and \<open>jwt.decode\<close> (decoding checks signature and expiry at the
  time of the call and yields \<open>None\<close> for \<open>InvalidTokenError\<close>), passlib's hash, pydantic's
  \<open>EmailStr\<close> (\<open>None\<close> when the string is no e-mail address, the normalised address
  otherwise), and FastAPI's \<open>HTTPBearer\<close> dependency, which reads the \<open>Authorization\<close>
  header and yields the bearer credentials or raises its own error. \<open>'tok\<close> is the type of
  encoded tokens; the \<open>Authorization\<close> header of a request is given as the bearer token
  it carries, \<open>None\<close> when it carries none.
\<close>

record payload =
  p_sub :: "string option"
  p_exp :: "datetime option"

record 'tok env =
  SECRET_KEY :: string
  jwt_encode :: "payload \<Rightarrow> string \<Rightarrow> 'tok"
  jwt_decode :: "'tok \<Rightarrow> string \<Rightarrow> datetime \<Rightarrow> payload option"
  get_password_hash :: "string \<Rightarrow> string"
  EmailStr :: "string \<Rightarrow> string option"
  HTTPBearer :: "'tok option \<Rightarrow> error + 'tok"

definition ACCESS_TOKEN_EXPIRE_MINUTES :: int where
  "ACCESS_TOKEN_EXPIRE_MINUTES = 60 * 24"

text \<open>\<open>timedelta\<close> values are seconds; \<open>if expires_delta:\<close> is false for \<open>None\<close> and for a zero delta.\<close>

definition create_access_token :: "'tok env \<Rightarrow> datetime \<Rightarrow> payload \<Rightarrow> int option \<Rightarrow> 'tok" where
  "create_access_token E now data expires_delta =
     (let expire = (case expires_delta of
                      Some delta \<Rightarrow> if delta \<noteq> 0 then now + delta
                                   else now + 60 * ACCESS_TOKEN_EXPIRE_MINUTES
                    | None \<Rightarrow> now + 60 * ACCESS_TOKEN_EXPIRE_MINUTES);
          to_encode = data\<lparr>p_exp := Some expire\<rparr>
      in jwt_encode E to_encode (SECRET_KEY E))"

definition credentials_exception :: error where
  "credentials_exception =
     HTTPException 401 ''Could not validate credentials'' [(''WWW-Authenticate'', ''Bearer'')]"

definition get_current_user :: "'tok env \<Rightarrow> datetime \<Rightarrow> db \<Rightarrow> 'tok \<Rightarrow> error + user_doc" where
  "get_current_user E now d token =
     (case jwt_decode E token (SECRET_KEY E) now of
        None \<Rightarrow> Inl credentials_exception
      | Some pl \<Rightarrow>
          (case p_sub pl of
             None \<Rightarrow> Inl credentials_exception
           | Some user_id \<Rightarrow>
               (case find_one (\<lambda>u. u_id u = user_id) (users d) of
                  None \<Rightarrow> Inl credentials_exception
                | Some user \<Rightarrow> Inr user)))"

text \<open>
  A protected route: \<open>Depends(security)\<close> runs first on the request's \<open>Authorization\<close>
  header, then the body of \<open>get_current_user\<close> on the credentials it extracted.
\<close>

definition resolve_identity :: "'tok env \<Rightarrow> datetime \<Rightarrow> db \<Rightarrow> 'tok option \<Rightarrow> error + user_doc" where
  "resolve_identity E now d authorization =
     (case HTTPBearer E authorization of
        Inl e \<Rightarrow> Inl e
      | Inr token \<Rightarrow> get_current_user E now d token)"

subsection \<open>Pydantic models\<close>

record UserCreate =
  uc_username :: string
  uc_email :: string
  uc_password :: string
  uc_full_name :: "string option"

record UserUpdate =
  uu_username :: "string field"
  uu_email :: "string field"
  uu_full_name :: "string field"
  uu_password :: "string field"

record UserResponse =
  ur_id :: string
  ur_username :: string
  ur_email :: string
  ur_full_name :: "string option"
  ur_created_at :: datetime

record 'tok Token =
  tk_access_token :: 'tok
  tk_token_type :: string
  tk_user :: UserResponse

text \<open>The JSON body of \<open>POST /tasks\<close>: \<open>status\<close> may be left out.\<close>

record TaskCreate_body =
  cb_title :: string
  cb_description :: "string option"
  cb_status :: "string field"
  cb_due_date :: "datetime option"

record TaskCreate =
  tc_title :: string
  tc_description :: "string option"
  tc_status :: string
  tc_due_date :: "datetime option"

record TaskUpdate =
  tu_title :: "string field"
  tu_description :: "string field"
  tu_status :: "string field"
  tu_due_date :: "datetime field"

record TaskResponse =
  tr_id :: string
  tr_title :: string
  tr_description :: "string option"
  tr_status :: string
  tr_due_date :: "datetime option"
  tr_created_at :: datetime
  tr_user_id :: string

definition allowed_statuses :: "string list" where
  "allowed_statuses = [''pending'', ''in-progress'', ''completed'']"

text \<open>
  Validation of the request models: the \<open>Field\<close> constraints and the \<open>field_validator\<close>s.
  \<open>None\<close> or \<open>False\<close> is a pydantic \<open>ValidationError\<close>. A constraint on an \<open>Optional\<close> field
  and the \<open>TaskUpdate\<close> status validator apply to a value, not to \<open>null\<close>.
\<close>

definition UserCreate_validate :: "'tok env \<Rightarrow> UserCreate \<Rightarrow> UserCreate option" where
  "UserCreate_validate E body =
     (if length (uc_username body) < 3 \<or> 50 < length (uc_username body) then None
      else case EmailStr E (uc_email body) of
             None \<Rightarrow> None
           | Some email \<Rightarrow>
               if length (uc_password body) < 6 then None
               else Some (body\<lparr>uc_email := email\<rparr>))"

definition UserUpdate_validate :: "'tok env \<Rightarrow> UserUpdate \<Rightarrow> UserUpdate option" where
  "UserUpdate_validate E body =
     (if (case uu_username body of
            Given (Some s) \<Rightarrow> length s < 3 \<or> 50 < length s | _ \<Rightarrow> False) then None
      else if (case uu_password body of
                 Given (Some s) \<Rightarrow> length s < 6 | _ \<Rightarrow> False) then None
      else case uu_email body of
             Given (Some s) \<Rightarrow>
               (case EmailStr E s of
                  None \<Rightarrow> None
                | Some email \<Rightarrow> Some (body\<lparr>uu_email := Given (Some email)\<rparr>))
           | _ \<Rightarrow> Some body)"

definition TaskCreate_validate :: "TaskCreate_body \<Rightarrow> TaskCreate option" where
  "TaskCreate_validate body =
     (if length (cb_title body) < 1 \<or> 200 < length (cb_title body) then None
      else case cb_status body of
             Unset \<Rightarrow>
               Some \<lparr>tc_title = cb_title body, tc_description = cb_description body,
                     tc_status = ''pending'', tc_due_date = cb_due_date body\<rparr>
           | Given None \<Rightarrow> None
           | Given (Some v) \<Rightarrow>
               if v \<notin> set allowed_statuses then None
               else Some \<lparr>tc_title = cb_title body, tc_description = cb_description body,
                          tc_status = v, tc_due_date = cb_due_date body\<rparr>)"

definition TaskUpdate_validate :: "TaskUpdate \<Rightarrow> bool" where
  "TaskUpdate_validate body =
     ((case tu_title body of
         Given (Some s) \<Rightarrow> 1 \<le> length s \<and> length s \<le> 200 | _ \<Rightarrow> True) \<and>
      (case tu_status body of
         Given (Some v) \<Rightarrow> v \<in> set allowed_statuses | _ \<Rightarrow> True))"

text \<open>
  Building the response models from a dictionary. \<open>UserResponse\<close> requires \<open>username\<close> and
  \<open>email\<close> to be strings and \<open>TaskResponse\<close> requires \<open>title\<close> and \<open>status\<close> to be strings;
  on \<open>null\<close> pydantic raises inside the handler.
\<close>

definition UserResponse_of ::
  "string \<Rightarrow> string option \<Rightarrow> string option \<Rightarrow> string option \<Rightarrow> datetime \<Rightarrow> error + UserResponse" where
  "UserResponse_of i username email full_name created_at =
     (case username of
        None \<Rightarrow> Inl ServerError
      | Some un \<Rightarrow>
          (case email of
             None \<Rightarrow> Inl ServerError
           | Some em \<Rightarrow>
               Inr \<lparr>ur_id = i, ur_username = un, ur_email = em, ur_full_name = full_name,
                    ur_created_at = created_at\<rparr>))"

definition TaskResponse_of :: "datetime task_dict \<Rightarrow> error + TaskResponse" where
  "TaskResponse_of t =
     (case t_title t of
        None \<Rightarrow> Inl ServerError
      | Some title \<Rightarrow>
          (case t_status t of
             None \<Rightarrow> Inl ServerError
           | Some st \<Rightarrow>
               Inr \<lparr>tr_id = t_id t, tr_title = title, tr_description = t_description t,
                    tr_status = st, tr_due_date = t_due_date t,
                    tr_created_at = t_created_at t, tr_user_id = t_user_id t\<rparr>))"

text \<open>
  The conversion every task handler applies to a stored task before answering:
  \<open>created_at\<close> and, when present, \<open>due_date\<close> are read back from their ISO strings.
\<close>

definition convert_dates :: "task_doc \<Rightarrow> datetime task_dict" where
  "convert_dates t =
     \<lparr>t_id = t_id t, t_title = t_title t, t_description = t_description t,
      t_status = t_status t, t_due_date = map_option fromisoformat (t_due_date t),
      t_created_at = fromisoformat (t_created_at t), t_user_id = t_user_id t\<rparr>"

subsection \<open>Authentication and profile handlers\<close>

text \<open>
  \<open>signup\<close> reads the clock twice (for \<open>created_at\<close> and, inside
  \<open>create_access_token\<close>, for the expiry) and draws one uuid.
\<close>

definition signup ::
  "'tok env \<Rightarrow> datetime \<Rightarrow> datetime \<Rightarrow> string \<Rightarrow> db \<Rightarrow> UserCreate \<Rightarrow> db \<times> (error + 'tok Token)" where
  "signup E now now' uuid4 d user_data =
     (case find_one (\<lambda>u. u_email u = Some (uc_email user_data) \<or>
                          u_username u = Some (uc_username user_data)) (users d) of
        Some existing_user \<Rightarrow>
          if u_email existing_user = Some (uc_email user_data)
          then (d, Inl (BadRequest ''Email already registered''))
          else (d, Inl (BadRequest ''Username already taken''))
      | None \<Rightarrow>
          (let user_dict =
                 \<lparr>u_id = uuid4, u_username = Some (uc_username user_data),
                  u_email = Some (uc_email user_data),
                  u_password = get_password_hash E (uc_password user_data),
                  u_full_name = uc_full_name user_data, u_created_at = isoformat now\<rparr>;
               d' = d\<lparr>users := insert_one user_dict (users d)\<rparr>;
               token = create_access_token E now' \<lparr>p_sub = Some (u_id user_dict), p_exp = None\<rparr> None
           in case UserResponse_of (u_id user_dict) (u_username user_dict) (u_email user_dict)
                     (u_full_name user_dict) (fromisoformat (u_created_at user_dict)) of
                Inl e \<Rightarrow> (d', Inl e)
              | Inr r \<Rightarrow> (d', Inr \<lparr>tk_access_token = token, tk_token_type = ''bearer'', tk_user = r\<rparr>)))"

definition signup_request ::
  "'tok env \<Rightarrow> datetime \<Rightarrow> datetime \<Rightarrow> string \<Rightarrow> db \<Rightarrow> UserCreate \<Rightarrow> db \<times> (error + 'tok Token)" where
  "signup_request E now now' uuid4 d body =
     (case UserCreate_validate E body of
        None \<Rightarrow> (d, Inl RequestValidationError)
      | Some user_data \<Rightarrow> signup E now now' uuid4 d user_data)"

text \<open>A query condition \<open>{key: v}\<close> that is present only when the body supplied the key.\<close>

fun supplied_equals :: "'a field \<Rightarrow> 'a option \<Rightarrow> bool" where
  "supplied_equals Unset stored = False"
| "supplied_equals (Given v) stored = (stored = v)"

text \<open>\<open>$set\<close> on one key: a supplied value (also \<open>null\<close>) replaces the stored one.\<close>

fun set_field :: "'a field \<Rightarrow> 'a option \<Rightarrow> 'a option" where
  "set_field Unset stored = stored"
| "set_field (Given v) stored = v"

definition user_update_empty :: "UserUpdate \<Rightarrow> bool" where
  "user_update_empty b =
     (uu_username b = Unset \<and> uu_email b = Unset \<and> uu_full_name b = Unset \<and> uu_password b = Unset)"

definition set_user :: "'tok env \<Rightarrow> UserUpdate \<Rightarrow> user_doc \<Rightarrow> user_doc" where
  "set_user E b u =
     u\<lparr>u_username := set_field (uu_username b) (u_username u),
       u_email := set_field (uu_email b) (u_email u),
       u_full_name := set_field (uu_full_name b) (u_full_name u),
       u_password := (case uu_password b of
                        Given (Some pw) \<Rightarrow> get_password_hash E pw
                      | _ \<Rightarrow> u_password u)\<rparr>"

text \<open>
  \<open>get_password_hash(None)\<close> raises (a \<open>TypeError\<close> of passlib), and so does subscripting the
  \<open>None\<close> that \<open>find_one\<close> returns when no user has the caller's id.
\<close>

definition update_user_profile ::
  "'tok env \<Rightarrow> db \<Rightarrow> user_doc \<Rightarrow> UserUpdate \<Rightarrow> db \<times> (error + UserResponse)" where
  "update_user_profile E d current_user user_update =
     (if user_update_empty user_update then (d, Inl (BadRequest ''No fields to update''))
      else
        (let existing_user =
               (if uu_username user_update \<noteq> Unset \<or> uu_email user_update \<noteq> Unset
                then find_one (\<lambda>u. (supplied_equals (uu_username user_update) (u_username u) \<or>
                                     supplied_equals (uu_email user_update) (u_email u)) \<and>
                                    u_id u \<noteq> u_id current_user) (users d)
                else None)
         in if (case existing_user of
                  Some ex \<Rightarrow> supplied_equals (uu_email user_update) (u_email ex) | None \<Rightarrow> False)
            then (d, Inl (BadRequest ''Email already in use''))
            else if (case existing_user of
                       Some ex \<Rightarrow> supplied_equals (uu_username user_update) (u_username ex)
                     | None \<Rightarrow> False)
            then (d, Inl (BadRequest ''Username already taken''))
            else if uu_password user_update = Given None then (d, Inl ServerError)
            else
              (let d' = d\<lparr>users := update_one (\<lambda>u. u_id u = u_id current_user)
                                       (set_user E user_update) (users d)\<rparr>
               in case find_one (\<lambda>u. u_id u = u_id current_user) (users d') of
                    None \<Rightarrow> (d', Inl ServerError)
                  | Some updated_user \<Rightarrow>
                      (d', UserResponse_of (u_id updated_user) (u_username updated_user)
                             (u_email updated_user) (u_full_name updated_user)
                             (fromisoformat (u_created_at updated_user))))))"

definition update_user_profile_request ::
  "'tok env \<Rightarrow> db \<Rightarrow> user_doc \<Rightarrow> UserUpdate \<Rightarrow> db \<times> (error + UserResponse)" where
  "update_user_profile_request E d current_user body =
     (case UserUpdate_validate E body of
        None \<Rightarrow> (d, Inl RequestValidationError)
      | Some user_update \<Rightarrow> update_user_profile E d current_user user_update)"

definition delete_user_profile :: "db \<Rightarrow> user_doc \<Rightarrow> db \<times> (error + string)" where
  "delete_user_profile d current_user =
     (let d1 = d\<lparr>tasks := delete_many (\<lambda>t. t_user_id t = u_id current_user) (tasks d)\<rparr>;
          d2 = d1\<lparr>users := fst (delete_one (\<lambda>u. u_id u = u_id current_user) (users d1))\<rparr>
      in (d2, Inr ''User profile and all associated tasks deleted successfully''))"

subsection \<open>Task handlers\<close>

definition create_task ::
  "db \<Rightarrow> user_doc \<Rightarrow> datetime \<Rightarrow> string \<Rightarrow> TaskCreate \<Rightarrow> db \<times> (error + TaskResponse)" where
  "create_task d current_user now uuid4 task_data =
     (let task_dict =
            \<lparr>t_id = uuid4, t_title = Some (tc_title task_data),
             t_description = tc_description task_data, t_status = Some (tc_status task_data),
             t_due_date = map_option isoformat (tc_due_date task_data),
             t_created_at = isoformat now, t_user_id = u_id current_user\<rparr>;
          d' = d\<lparr>tasks := insert_one task_dict (tasks d)\<rparr>
      in (d', TaskResponse_of (convert_dates task_dict)))"

definition create_task_request ::
  "db \<Rightarrow> user_doc \<Rightarrow> datetime \<Rightarrow> string \<Rightarrow> TaskCreate_body \<Rightarrow> db \<times> (error + TaskResponse)" where
  "create_task_request d current_user now uuid4 body =
     (case TaskCreate_validate body of
        None \<Rightarrow> (d, Inl RequestValidationError)
      | Some task_data \<Rightarrow> create_task d current_user now uuid4 task_data)"

text \<open>
  \<open>if status_filter:\<close> is false for \<open>None\<close> and for the empty string. The handler returns
  the dictionaries themselves, at most 1000 of them. The route is declared with
  \<open>response_model=List[TaskResponse]\<close>: FastAPI builds a \<open>TaskResponse\<close> from every
  returned dictionary and answers with a server error when one of them cannot be built.
\<close>

fun List_TaskResponse :: "datetime task_dict list \<Rightarrow> error + TaskResponse list" where
  "List_TaskResponse [] = Inr []"
| "List_TaskResponse (t # ts) =
     (case TaskResponse_of t of
        Inl e \<Rightarrow> Inl e
      | Inr r \<Rightarrow> (case List_TaskResponse ts of Inl e \<Rightarrow> Inl e | Inr rs \<Rightarrow> Inr (r # rs)))"

definition get_tasks :: "db \<Rightarrow> user_doc \<Rightarrow> string option \<Rightarrow> error + TaskResponse list" where
  "get_tasks d current_user status_filter =
     (case status_filter of
        None \<Rightarrow>
          List_TaskResponse
            (map convert_dates
               (find_to_list (\<lambda>t. t_user_id t = u_id current_user) 1000 (tasks d)))
      | Some sf \<Rightarrow>
          if sf = [] then
            List_TaskResponse
              (map convert_dates
                 (find_to_list (\<lambda>t. t_user_id t = u_id current_user) 1000 (tasks d)))
          else if sf \<notin> set allowed_statuses then
            Inl (BadRequest ''Invalid status. Must be one of: pending, in-progress, completed'')
          else
            List_TaskResponse
              (map convert_dates
                 (find_to_list (\<lambda>t. t_user_id t = u_id current_user \<and> t_status t = Some sf)
                    1000 (tasks d))))"

definition get_task :: "db \<Rightarrow> user_doc \<Rightarrow> string \<Rightarrow> error + TaskResponse" where
  "get_task d current_user task_id =
     (case find_one (\<lambda>t. t_id t = task_id \<and> t_user_id t = u_id current_user) (tasks d) of
        None \<Rightarrow> Inl (NotFound ''Task not found'')
      | Some task \<Rightarrow> TaskResponse_of (convert_dates task))"

definition task_update_empty :: "TaskUpdate \<Rightarrow> bool" where
  "task_update_empty b =
     (tu_title b = Unset \<and> tu_description b = Unset \<and> tu_status b = Unset \<and> tu_due_date b = Unset)"

text \<open>
  \<open>$set\<close> of the supplied keys; a supplied \<open>due_date\<close> that is not \<open>null\<close> is stored as its
  ISO string.
\<close>

definition set_task :: "TaskUpdate \<Rightarrow> task_doc \<Rightarrow> task_doc" where
  "set_task b t =
     t\<lparr>t_title := set_field (tu_title b) (t_title t),
       t_description := set_field (tu_description b) (t_description t),
       t_status := set_field (tu_status b) (t_status t),
       t_due_date := (case tu_due_date b of
                        Unset \<Rightarrow> t_due_date t
                      | Given v \<Rightarrow> map_option isoformat v)\<rparr>"

definition update_task ::
  "db \<Rightarrow> user_doc \<Rightarrow> string \<Rightarrow> TaskUpdate \<Rightarrow> db \<times> (error + TaskResponse)" where
  "update_task d current_user task_id task_update =
     (case find_one (\<lambda>t. t_id t = task_id \<and> t_user_id t = u_id current_user) (tasks d) of
        None \<Rightarrow> (d, Inl (NotFound ''Task not found''))
      | Some task \<Rightarrow>
          if task_update_empty task_update then (d, Inl (BadRequest ''No fields to update''))
          else
            (let d' = d\<lparr>tasks := update_one (\<lambda>t. t_id t = task_id) (set_task task_update)
                                     (tasks d)\<rparr>
             in case find_one (\<lambda>t. t_id t = task_id) (tasks d') of
                  None \<Rightarrow> (d', Inl ServerError)
                | Some updated_task \<Rightarrow> (d', TaskResponse_of (convert_dates updated_task))))"

definition update_task_request ::
  "db \<Rightarrow> user_doc \<Rightarrow> string \<Rightarrow> TaskUpdate \<Rightarrow> db \<times> (error + TaskResponse)" where
  "update_task_request d current_user task_id body =
     (if TaskUpdate_validate body then update_task d current_user task_id body
      else (d, Inl RequestValidationError))"

definition delete_task :: "db \<Rightarrow> user_doc \<Rightarrow> string \<Rightarrow> db \<times> (error + string)" where
  "delete_task d current_user task_id =
     (case delete_one (\<lambda>t. t_id t = task_id \<and> t_user_id t = u_id current_user) (tasks d) of
        (tasks', deleted_count) \<Rightarrow>
          if deleted_count = 0 then (d, Inl (NotFound ''Task not found''))
          else (d\<lparr>tasks := tasks'\<rparr>, Inr ''Task deleted successfully''))"

subsection \<open>A reference instance of the libraries\<close>

text \<open>
  An idealised instance of the library parameters, on which the handlers can be run:
  a token is its payload together with the key that signed it, and decoding succeeds when
  the key is the verifier's and the expiry, if any, lies in the future (PyJWT raises
  \<open>ExpiredSignatureError\<close> when \<open>exp \<le> now\<close>). \<open>HTTPBearer_auto_error e\<close> is the
  dependency with \<open>auto_error=True\<close> (the default that \<open>security = HTTPBearer()\<close> takes):
  without credentials it raises its error \<open>e\<close>, which FastAPI defines as
  \<open>HTTPException(403, "Not authenticated")\<close> (status 401 in later releases).
\<close>

definition HTTPBearer_auto_error :: "error \<Rightarrow> 'tok option \<Rightarrow> error + 'tok" where
  "HTTPBearer_auto_error e authorization =
     (case authorization of None \<Rightarrow> Inl e | Some credentials \<Rightarrow> Inr credentials)"

definition ref_decode :: "payload \<times> string \<Rightarrow> string \<Rightarrow> datetime \<Rightarrow> payload option" where
  "ref_decode token key now =
     (if snd token = key \<and> (case p_exp (fst token) of None \<Rightarrow> True | Some ex \<Rightarrow> now < ex)
      then Some (fst token) else None)"

definition ref_env :: "(payload \<times> string) env" where
  "ref_env =
     \<lparr>SECRET_KEY = ''your-secret-key-change-in-production-123456789'',
      jwt_encode = (\<lambda>pl key. (pl, key)),
      jwt_decode = ref_decode,
      get_password_hash = (\<lambda>pw. ''$2b$12$'' @ pw),
      EmailStr = (\<lambda>s. if CHR ''@'' \<in> set s then Some s else None),
      HTTPBearer = HTTPBearer_auto_error (HTTPException 403 ''Not authenticated'' [])\<rparr>"

text \<open>
  What the round-trip property of the token library says at verification time \<open>t\<close>: a
  payload signed with the process secret and not yet expired decodes to itself.
\<close>

definition jwt_roundtrip :: "'tok env \<Rightarrow> datetime \<Rightarrow> bool" where
  "jwt_roundtrip E t =
     (\<forall>pl ex. p_exp pl = Some ex \<and> t < ex \<longrightarrow>
        jwt_decode E (jwt_encode E pl (SECRET_KEY E)) (SECRET_KEY E) t = Some pl)"

text \<open>Sample documents for running the handlers: two users, and \<open>n\<close> tasks of one owner.\<close>

definition alice :: user_doc where
  "alice = \<lparr>u_id = ''u-alice'', u_username = Some ''alice'', u_email = Some ''a@x.com'',
            u_password = ''$2b$12$secret1'', u_full_name = None, u_created_at = Iso 0\<rparr>"

definition bob :: user_doc where
  "bob = \<lparr>u_id = ''u-bob'', u_username = Some ''bob'', u_email = Some ''b@x.com'',
          u_password = ''$2b$12$secret2'', u_full_name = None, u_created_at = Iso 1\<rparr>"

definition sample_task :: "string \<Rightarrow> string \<Rightarrow> task_doc" where
  "sample_task i owner =
     \<lparr>t_id = i, t_title = Some ''buy milk'', t_description = None,
      t_status = Some ''pending'', t_due_date = None, t_created_at = Iso 2, t_user_id = owner\<rparr>"

definition many_tasks :: "nat \<Rightarrow> string \<Rightarrow> task_doc list" where
  "many_tasks n owner = map (\<lambda>k. sample_task (replicate k (CHR ''a'')) owner) [0..<n]"

section \<open>Properties\<close>

subsection \<open>Facts about the collection primitives\<close>

lemma find_one_None_iff: "find_one q c = None \<longleftrightarrow> (\<forall>x\<in>set c. \<not> q x)"
  by (auto simp: find_one_def find_None_iff)

lemma find_one_SomeD: "find_one q c = Some x \<Longrightarrow> x \<in> set c \<and> q x"
  by (auto simp: find_one_def find_Some_iff)

lemma find_one_split:
  "find_one q c = Some x \<Longrightarrow> \<exists>ys zs. c = ys @ x # zs \<and> (\<forall>y\<in>set ys. \<not> q y) \<and> q x"
proof (induction c)
  case Nil
  then show ?case by (simp add: find_one_def)
next
  case (Cons a c)
  show ?case
  proof (cases "q a")
    case True
    with Cons.prems have "a = x" by (simp add: find_one_def)
    with True have "a # c = [] @ x # c \<and> (\<forall>y\<in>set []. \<not> q y) \<and> q x" by simp
    then show ?thesis by blast
  next
    case False
    with Cons.prems have "find_one q c = Some x" by (simp add: find_one_def)
    from Cons.IH[OF this] obtain ys zs where
      "c = ys @ x # zs" "\<forall>y\<in>set ys. \<not> q y" "q x" by blast
    with False have "a # c = (a # ys) @ x # zs \<and> (\<forall>y\<in>set (a # ys). \<not> q y) \<and> q x" by simp
    then show ?thesis by blast
  qed
qed

lemma update_one_split:
  "(\<forall>y\<in>set ys. \<not> q y) \<Longrightarrow> q x \<Longrightarrow> update_one q f (ys @ x # zs) = ys @ f x # zs"
  by (induction ys) auto

lemma update_one_none: "(\<forall>y\<in>set c. \<not> q y) \<Longrightarrow> update_one q f c = c"
  by (induction c) auto

lemma delete_one_split:
  "(\<forall>y\<in>set ys. \<not> q y) \<Longrightarrow> q x \<Longrightarrow> delete_one q (ys @ x # zs) = (ys @ zs, 1)"
  by (induction ys) auto

lemma delete_one_none: "(\<forall>y\<in>set c. \<not> q y) \<Longrightarrow> delete_one q c = (c, 0)"
  by (induction c) auto

lemma length_update_one: "length (update_one q f c) = length c"
  by (induction c) auto

lemma update_one_nth:
  "i < length c \<Longrightarrow>
   update_one q f c ! i = c ! i \<or> (q (c ! i) \<and> update_one q f c ! i = f (c ! i))"
proof (induction c arbitrary: i)
  case Nil
  then show ?case by simp
next
  case (Cons a c)
  then show ?case by (cases i) auto
qed

subsection \<open>Unfolding the handlers on concrete requests\<close>

lemmas handler_defs =
  create_task_request_def create_task_def update_task_request_def update_task_def get_task_def
  TaskCreate_validate_def TaskUpdate_validate_def task_update_empty_def set_task_def
  TaskResponse_of_def convert_dates_def insert_one_def find_one_def empty_db_def alice_def bob_def
  isoformat_def NotFound_def BadRequest_def allowed_statuses_def

subsection \<open>C1: Get returns a task exactly when the caller owns it\<close>

text \<open>
  The ownership scoping of \<open>get_task\<close>: the call fails with \<open>NotFound\<close> exactly when no stored
  task has the requested id and the caller as owner, whichever of the two is the cause; a
  record it returns is one the caller owns; and a matching record whose \<open>title\<close> and \<open>status\<close>
  are strings is returned.
\<close>

lemma get_task_NotFound_iff:
  "get_task d current_user task_id = Inl (NotFound ''Task not found'') \<longleftrightarrow>
     (\<forall>t\<in>set (tasks d). \<not> (t_id t = task_id \<and> t_user_id t = u_id current_user))"
proof (cases "find_one (\<lambda>t. t_id t = task_id \<and> t_user_id t = u_id current_user) (tasks d)")
  case None
  then show ?thesis
    using find_one_None_iff
      [of "\<lambda>t. t_id t = task_id \<and> t_user_id t = u_id current_user" "tasks d"]
    by (simp add: get_task_def)
next
  case (Some task)
  then have "\<not> (\<forall>t\<in>set (tasks d). \<not> (t_id t = task_id \<and> t_user_id t = u_id current_user))"
    using find_one_SomeD [OF Some] by blast
  moreover have "get_task d current_user task_id \<noteq> Inl (NotFound ''Task not found'')"
    by (simp add: get_task_def Some TaskResponse_of_def NotFound_def split: option.splits)
  ultimately show ?thesis by simp
qed

lemma get_task_returns_owned:
  assumes "get_task d current_user task_id = Inr r"
  shows "tr_id r = task_id \<and> tr_user_id r = u_id current_user \<and>
         (\<exists>t\<in>set (tasks d). t_id t = task_id \<and> t_user_id t = u_id current_user \<and>
            TaskResponse_of (convert_dates t) = Inr r)"
proof (cases "find_one (\<lambda>t. t_id t = task_id \<and> t_user_id t = u_id current_user) (tasks d)")
  case None
  with assms show ?thesis by (simp add: get_task_def)
next
  case (Some task)
  with assms have r: "TaskResponse_of (convert_dates task) = Inr r"
    by (simp add: get_task_def)
  from find_one_SomeD [OF Some] have t: "task \<in> set (tasks d)" "t_id task = task_id"
    "t_user_id task = u_id current_user" by simp_all
  from r have "tr_id r = t_id task \<and> tr_user_id r = t_user_id task"
    by (auto simp: TaskResponse_of_def convert_dates_def split: option.splits)
  with r t show ?thesis by auto
qed

lemma get_task_valid_record:
  assumes "find_one (\<lambda>t. t_id t = task_id \<and> t_user_id t = u_id current_user) (tasks d) = Some task"
    and "t_title task = Some title" and "t_status task = Some st"
  shows "get_task d current_user task_id =
           Inr \<lparr>tr_id = task_id, tr_title = title, tr_description = t_description task,
                tr_status = st, tr_due_date = map_option fromisoformat (t_due_date task),
                tr_created_at = fromisoformat (t_created_at task),
                tr_user_id = u_id current_user\<rparr>"
  using assms find_one_SomeD [OF assms(1)]
  by (simp add: get_task_def TaskResponse_of_def convert_dates_def)

lemma delete_task_other_users:
  assumes "delete_task d current_user task_id = (d', r)"
  shows "filter (\<lambda>t. t_user_id t \<noteq> u_id current_user) (tasks d') =
         filter (\<lambda>t. t_user_id t \<noteq> u_id current_user) (tasks d)"
proof (cases "find_one (\<lambda>t. t_id t = task_id \<and> t_user_id t = u_id current_user) (tasks d)")
  case None
  then have "delete_one (\<lambda>t. t_id t = task_id \<and> t_user_id t = u_id current_user) (tasks d) =
      (tasks d, 0)"
    by (simp add: find_one_None_iff delete_one_none)
  with assms show ?thesis by (simp add: delete_task_def)
next
  case (Some task)
  from find_one_split [OF Some] obtain ys zs where
    s: "tasks d = ys @ task # zs"
    and n: "\<forall>y\<in>set ys. \<not> (t_id y = task_id \<and> t_user_id y = u_id current_user)"
    and q: "t_id task = task_id \<and> t_user_id task = u_id current_user" by blast
  from n q have "delete_one (\<lambda>t. t_id t = task_id \<and> t_user_id t = u_id current_user)
      (ys @ task # zs) = (ys @ zs, 1)"
    by (rule delete_one_split)
  with assms s have "tasks d' = ys @ zs" by (auto simp: delete_task_def)
  with s q show ?thesis by simp
qed

text \<open>
  C1, as evaluated on the code. The claim says that the task record is returned whenever a
  task with the requested id exists and the caller owns it. After the owner's accepted
  update \<open>{"status": null}\<close> the record is stored with \<open>status = null\<close>; it still exists and
  is still owned by the caller, yet \<open>get_task\<close> raises while building \<open>TaskResponse\<close> and the
  call ends with a server error instead of the record.
\<close>

theorem get_task_owned_record_not_returned:
  "find_one (\<lambda>t. t_id t = ''t1'' \<and> t_user_id t = u_id alice)
     (tasks (fst (update_task_request
        (fst (create_task_request empty_db alice 5 ''t1''
           \<lparr>cb_title = ''buy milk'', cb_description = None, cb_status = Unset, cb_due_date = None\<rparr>))
        alice ''t1''
        \<lparr>tu_title = Unset, tu_description = Unset, tu_status = Given None, tu_due_date = Unset\<rparr>))) =
     Some \<lparr>t_id = ''t1'', t_title = Some ''buy milk'', t_description = None,
           t_status = None, t_due_date = None, t_created_at = Iso 5,
           t_user_id = ''u-alice''\<rparr> \<and>
   get_task
     (fst (update_task_request
        (fst (create_task_request empty_db alice 5 ''t1''
           \<lparr>cb_title = ''buy milk'', cb_description = None, cb_status = Unset, cb_due_date = None\<rparr>))
        alice ''t1''
        \<lparr>tu_title = Unset, tu_description = Unset, tu_status = Given None, tu_due_date = Unset\<rparr>))
     alice ''t1'' = Inl ServerError"
  by (simp add: handler_defs)

subsection \<open>C2: identity resolution on protected routes\<close>

text \<open>
  C2 as stated fails: a request without bearer credentials never reaches
  \<open>get_current_user\<close>. It is rejected by the \<open>HTTPBearer\<close> dependency with that dependency's
  own error ("Not authenticated", status 403, or 401 in later FastAPI releases), which is
  not the \<open>credentials_exception\<close> ("Could not validate credentials" with a
  \<open>WWW-Authenticate\<close> header) raised for a token that does not verify.
\<close>

theorem resolve_identity_missing_token_counterexample:
  "resolve_identity ref_env 0 empty_db None = Inl (HTTPException 403 ''Not authenticated'' []) \<and>
   resolve_identity ref_env 0 empty_db
     (Some (\<lparr>p_sub = Some ''u-alice'', p_exp = None\<rparr>, ''forged'')) = Inl credentials_exception \<and>
   resolve_identity (ref_env\<lparr>HTTPBearer := HTTPBearer_auto_error
       (HTTPException 401 ''Not authenticated'' [(''WWW-Authenticate'', ''Bearer'')])\<rparr>)
     0 empty_db None \<noteq> Inl credentials_exception \<and>
   HTTPException 403 ''Not authenticated'' [] \<noteq> credentials_exception"
  by (simp add: resolve_identity_def get_current_user_def ref_env_def ref_decode_def
      HTTPBearer_auto_error_def credentials_exception_def empty_db_def)

lemma get_current_user_Inr_iff:
  "get_current_user E now d token = Inr u \<longleftrightarrow>
     (\<exists>pl uid. jwt_decode E token (SECRET_KEY E) now = Some pl \<and> p_sub pl = Some uid \<and>
        find_one (\<lambda>x. u_id x = uid) (users d) = Some u)"
  by (simp add: get_current_user_def split: option.splits)

lemma get_current_user_failure:
  assumes "\<forall>v. get_current_user E now d token \<noteq> Inr v"
  shows "get_current_user E now d token = Inl credentials_exception"
proof (cases "get_current_user E now d token")
  case (Inl e)
  then show ?thesis
    by (auto simp: get_current_user_def split: option.splits)
next
  case (Inr v)
  with assms show ?thesis by simp
qed

text \<open>
  C2, amended: identity resolution succeeds, with a record of the user store, exactly when
  the request carries bearer credentials, the token decodes under the process secret at the
  time of the call, the payload has a subject, and \<open>find_one\<close> finds a user with that id.
  When credentials are present every failure (token invalid or expired, subject missing,
  user not found) is the same \<open>credentials_exception\<close>. When they are absent the error is
  the one the \<open>HTTPBearer\<close> dependency raises.
\<close>

theorem resolve_identity_outcomes:
  "(resolve_identity E now d authorization = Inr u \<longleftrightarrow>
      (\<exists>token pl uid. HTTPBearer E authorization = Inr token \<and>
         jwt_decode E token (SECRET_KEY E) now = Some pl \<and> p_sub pl = Some uid \<and>
         find_one (\<lambda>x. u_id x = uid) (users d) = Some u)) \<and>
   (resolve_identity E now d authorization = Inr u \<longrightarrow> u \<in> set (users d)) \<and>
   (\<forall>token. HTTPBearer E authorization = Inr token \<longrightarrow>
      (\<forall>v. resolve_identity E now d authorization \<noteq> Inr v) \<longrightarrow>
      resolve_identity E now d authorization = Inl credentials_exception) \<and>
   (\<forall>e. HTTPBearer E authorization = Inl e \<longrightarrow>
      resolve_identity E now d authorization = Inl e)"
proof (cases "HTTPBearer E authorization")
  case (Inl e)
  then have "resolve_identity E now d authorization = Inl e"
    by (simp add: resolve_identity_def)
  with Inl show ?thesis by simp
next
  case (Inr token)
  then have r: "resolve_identity E now d authorization = get_current_user E now d token"
    by (simp add: resolve_identity_def)
  have stored: "get_current_user E now d token = Inr u \<longrightarrow> u \<in> set (users d)"
    using find_one_SomeD [of _ "users d" u] by (auto simp: get_current_user_Inr_iff)
  show ?thesis
    using stored get_current_user_failure [of E now d token]
    by (simp add: r Inr get_current_user_Inr_iff)
qed

text \<open>
  Witness for C2: in a store holding bob and alice, a token for alice signed with the
  process secret resolves to alice's record, and the same payload signed with another key
  is refused with \<open>credentials_exception\<close>.
\<close>

theorem resolve_identity_outcomes_witness:
  "HTTPBearer ref_env (Some (\<lparr>p_sub = Some ''u-alice'', p_exp = Some 86400\<rparr>, SECRET_KEY ref_env)) =
     Inr (\<lparr>p_sub = Some ''u-alice'', p_exp = Some 86400\<rparr>, SECRET_KEY ref_env) \<and>
   resolve_identity ref_env 5 \<lparr>users = [bob, alice], tasks = []\<rparr>
     (Some (\<lparr>p_sub = Some ''u-alice'', p_exp = Some 86400\<rparr>, SECRET_KEY ref_env)) = Inr alice \<and>
   alice \<in> set (users \<lparr>users = [bob, alice], tasks = []\<rparr>) \<and>
   HTTPBearer ref_env (Some (\<lparr>p_sub = Some ''u-alice'', p_exp = Some 86400\<rparr>, ''forged'')) =
     Inr (\<lparr>p_sub = Some ''u-alice'', p_exp = Some 86400\<rparr>, ''forged'') \<and>
   resolve_identity ref_env 5 \<lparr>users = [bob, alice], tasks = []\<rparr>
     (Some (\<lparr>p_sub = Some ''u-alice'', p_exp = Some 86400\<rparr>, ''forged'')) =
     Inl credentials_exception"
proof -
  let ?d = "\<lparr>users = [bob, alice], tasks = []\<rparr>"
  let ?pl = "\<lparr>p_sub = Some ''u-alice'', p_exp = Some 86400\<rparr>"
  let ?good = "(?pl, SECRET_KEY ref_env)"
  let ?bad = "(?pl, ''forged'')"
  have hb: "HTTPBearer ref_env = HTTPBearer_auto_error (HTTPException 403 ''Not authenticated'' [])"
    by (simp add: ref_env_def)
  have g1: "HTTPBearer ref_env (Some ?good) = Inr ?good"
    by (simp add: hb HTTPBearer_auto_error_def)
  have b1: "HTTPBearer ref_env (Some ?bad) = Inr ?bad"
    by (simp add: hb HTTPBearer_auto_error_def)
  have dg: "jwt_decode ref_env ?good (SECRET_KEY ref_env) 5 = Some ?pl"
    by (simp add: ref_env_def ref_decode_def)
  have db: "jwt_decode ref_env ?bad (SECRET_KEY ref_env) 5 = None"
    by (simp add: ref_env_def ref_decode_def)
  have f: "find_one (\<lambda>x. u_id x = ''u-alice'') (users ?d) = Some alice"
    by (simp add: find_one_def alice_def bob_def)
  from resolve_identity_outcomes [of ref_env 5 ?d "Some ?good" alice] g1 dg f
  have g2: "resolve_identity ref_env 5 ?d (Some ?good) = Inr alice"
    and g3: "alice \<in> set (users ?d)"
    by auto
  have "\<forall>v. resolve_identity ref_env 5 ?d (Some ?bad) \<noteq> Inr v"
    by (simp add: resolve_identity_def b1 get_current_user_def db)
  with resolve_identity_outcomes [of ref_env 5 ?d "Some ?bad" alice] b1
  have b2: "resolve_identity ref_env 5 ?d (Some ?bad) = Inl credentials_exception"
    by blast
  from g1 g2 g3 b1 b2 show ?thesis by blast
qed

subsection \<open>C3: signup conflicts\<close>

text \<open>
  C3 as stated fails where it says that the e-mail conflict is reported when both fields
  conflict. \<open>signup\<close> fetches one document, the first that matches either field, and reports
  on that document only: with alice stored before bob, a signup with alice's username and
  bob's e-mail conflicts on both fields and is answered "Username already taken".
\<close>

theorem signup_both_conflict_counterexample:
  "signup ref_env 10 11 ''u-new'' \<lparr>users = [alice, bob], tasks = []\<rparr>
     \<lparr>uc_username = ''alice'', uc_email = ''b@x.com'', uc_password = ''secret9'',
      uc_full_name = None\<rparr> =
     (\<lparr>users = [alice, bob], tasks = []\<rparr>, Inl (BadRequest ''Username already taken'')) \<and>
   u_email bob = Some ''b@x.com'' \<and> u_username alice = Some ''alice''"
  by (simp add: signup_def find_one_def alice_def bob_def)

text \<open>
  C3, amended: signup fails with \<open>BadRequest\<close>, leaving the store unchanged, exactly when
  some stored user has the same e-mail or the same username (exact match). The error names
  a conflicting field of the first stored user that matches either one: "Email already
  registered" when that user's e-mail is the requested one (so also when this one user
  conflicts on both fields), otherwise "Username already taken". When no stored user
  conflicts, signup succeeds and appends the new user to the store.
\<close>

theorem signup_conflicts:
  "((\<exists>detail. signup E now now' uuid4 d user_data = (d, Inl (BadRequest detail))) \<longleftrightarrow>
      (\<exists>u\<in>set (users d). u_email u = Some (uc_email user_data) \<or>
                          u_username u = Some (uc_username user_data))) \<and>
   (\<forall>ys x zs. users d = ys @ x # zs \<and>
      (\<forall>y\<in>set ys. u_email y \<noteq> Some (uc_email user_data) \<and>
                   u_username y \<noteq> Some (uc_username user_data)) \<and>
      u_email x = Some (uc_email user_data) \<longrightarrow>
      signup E now now' uuid4 d user_data = (d, Inl (BadRequest ''Email already registered''))) \<and>
   (\<forall>ys x zs. users d = ys @ x # zs \<and>
      (\<forall>y\<in>set ys. u_email y \<noteq> Some (uc_email user_data) \<and>
                   u_username y \<noteq> Some (uc_username user_data)) \<and>
      u_email x \<noteq> Some (uc_email user_data) \<and> u_username x = Some (uc_username user_data) \<longrightarrow>
      signup E now now' uuid4 d user_data = (d, Inl (BadRequest ''Username already taken''))) \<and>
   ((\<forall>u\<in>set (users d). u_email u \<noteq> Some (uc_email user_data) \<and>
                        u_username u \<noteq> Some (uc_username user_data)) \<longrightarrow>
      (\<exists>r. signup E now now' uuid4 d user_data =
             (d\<lparr>users := users d @
                  [\<lparr>u_id = uuid4, u_username = Some (uc_username user_data),
                    u_email = Some (uc_email user_data),
                    u_password = get_password_hash E (uc_password user_data),
                    u_full_name = uc_full_name user_data, u_created_at = isoformat now\<rparr>]\<rparr>,
              Inr r) \<and>
           ur_id (tk_user r) = uuid4 \<and> ur_username (tk_user r) = uc_username user_data \<and>
           ur_email (tk_user r) = uc_email user_data))"
proof -
  let ?q = "\<lambda>u. u_email u = Some (uc_email user_data) \<or> u_username u = Some (uc_username user_data)"
  let ?res = "signup E now now' uuid4 d user_data"
  have none: "(\<forall>u\<in>set (users d). \<not> ?q u) \<longrightarrow>
      (\<exists>r. ?res =
             (d\<lparr>users := users d @
                  [\<lparr>u_id = uuid4, u_username = Some (uc_username user_data),
                    u_email = Some (uc_email user_data),
                    u_password = get_password_hash E (uc_password user_data),
                    u_full_name = uc_full_name user_data, u_created_at = isoformat now\<rparr>]\<rparr>,
              Inr r) \<and>
           ur_id (tk_user r) = uuid4 \<and> ur_username (tk_user r) = uc_username user_data \<and>
           ur_email (tk_user r) = uc_email user_data)"
  proof
    assume "\<forall>u\<in>set (users d). \<not> ?q u"
    then have "find_one ?q (users d) = None" by (simp add: find_one_None_iff)
    then show "\<exists>r. ?res =
             (d\<lparr>users := users d @
                  [\<lparr>u_id = uuid4, u_username = Some (uc_username user_data),
                    u_email = Some (uc_email user_data),
                    u_password = get_password_hash E (uc_password user_data),
                    u_full_name = uc_full_name user_data, u_created_at = isoformat now\<rparr>]\<rparr>,
              Inr r) \<and>
           ur_id (tk_user r) = uuid4 \<and> ur_username (tk_user r) = uc_username user_data \<and>
           ur_email (tk_user r) = uc_email user_data"
      by (simp add: signup_def UserResponse_of_def insert_one_def Let_def)
  qed
  have first: "find_one ?q (ys @ x # zs) = Some x" if "\<forall>y\<in>set ys. \<not> ?q y" "?q x" for ys x zs
    using that by (induction ys) (auto simp: find_one_def)
  have email: "\<forall>ys x zs. users d = ys @ x # zs \<and>
      (\<forall>y\<in>set ys. u_email y \<noteq> Some (uc_email user_data) \<and>
                   u_username y \<noteq> Some (uc_username user_data)) \<and>
      u_email x = Some (uc_email user_data) \<longrightarrow>
      ?res = (d, Inl (BadRequest ''Email already registered''))"
  proof (intro allI impI)
    fix ys x zs
    assume a: "users d = ys @ x # zs \<and>
      (\<forall>y\<in>set ys. u_email y \<noteq> Some (uc_email user_data) \<and>
                   u_username y \<noteq> Some (uc_username user_data)) \<and>
      u_email x = Some (uc_email user_data)"
    then have "find_one ?q (users d) = Some x" using first [of ys x zs] by simp
    with a show "?res = (d, Inl (BadRequest ''Email already registered''))"
      by (simp add: signup_def)
  qed
  have username: "\<forall>ys x zs. users d = ys @ x # zs \<and>
      (\<forall>y\<in>set ys. u_email y \<noteq> Some (uc_email user_data) \<and>
                   u_username y \<noteq> Some (uc_username user_data)) \<and>
      u_email x \<noteq> Some (uc_email user_data) \<and> u_username x = Some (uc_username user_data) \<longrightarrow>
      ?res = (d, Inl (BadRequest ''Username already taken''))"
  proof (intro allI impI)
    fix ys x zs
    assume a: "users d = ys @ x # zs \<and>
      (\<forall>y\<in>set ys. u_email y \<noteq> Some (uc_email user_data) \<and>
                   u_username y \<noteq> Some (uc_username user_data)) \<and>
      u_email x \<noteq> Some (uc_email user_data) \<and> u_username x = Some (uc_username user_data)"
    then have "find_one ?q (users d) = Some x" using first [of ys x zs] by simp
    with a show "?res = (d, Inl (BadRequest ''Username already taken''))"
      by (simp add: signup_def)
  qed
  have iff: "(\<exists>detail. ?res = (d, Inl (BadRequest detail))) \<longleftrightarrow> (\<exists>u\<in>set (users d). ?q u)"
  proof
    assume "\<exists>detail. ?res = (d, Inl (BadRequest detail))"
    with none show "\<exists>u\<in>set (users d). ?q u" by auto
  next
    assume "\<exists>u\<in>set (users d). ?q u"
    then obtain x where "find_one ?q (users d) = Some x"
      using find_one_None_iff [of ?q "users d"] by fastforce
    then show "\<exists>detail. ?res = (d, Inl (BadRequest detail))"
      by (auto simp: signup_def)
  qed
  from iff email username none show ?thesis by blast
qed

text \<open>
  Witness for C3: with alice and bob stored, a signup with a new username and bob's e-mail
  finds bob as the first conflicting user and is answered "Email already registered".
\<close>

theorem signup_conflicts_witness:
  "users \<lparr>users = [alice, bob], tasks = []\<rparr> = [alice] @ bob # [] \<and>
   u_email alice \<noteq> Some ''b@x.com'' \<and> u_username alice \<noteq> Some ''bobby'' \<and>
   u_email bob = Some ''b@x.com'' \<and>
   signup ref_env 10 11 ''u-new'' \<lparr>users = [alice, bob], tasks = []\<rparr>
     \<lparr>uc_username = ''bobby'', uc_email = ''b@x.com'', uc_password = ''secret9'',
      uc_full_name = None\<rparr> =
     (\<lparr>users = [alice, bob], tasks = []\<rparr>, Inl (BadRequest ''Email already registered''))"
  using signup_conflicts [of ref_env 10 11 "''u-new''" "\<lparr>users = [alice, bob], tasks = []\<rparr>"
      "\<lparr>uc_username = ''bobby'', uc_email = ''b@x.com'', uc_password = ''secret9'',
        uc_full_name = None\<rparr>"]
  by (simp add: alice_def bob_def signup_def find_one_def)

subsection \<open>C4: the token of a signup resolves to the new user\<close>

text \<open>
  C4: after a successful signup, the returned token, verified by \<open>get_current_user\<close> against
  the resulting store at any time \<open>t\<close> before the token's expiry (24 hours after issue),
  resolves to a stored user whose id is the generated one, which is also the id in the
  returned profile; when the generated id was not in use, that user has the username and
  e-mail of the signup. The token library is assumed to round-trip: an unexpired payload
  signed with the process secret decodes to itself (\<open>jwt_roundtrip\<close>).
\<close>

theorem signup_token_resolves:
  assumes "signup E now now' uuid4 d user_data = (d', Inr r)"
    and "jwt_roundtrip E t"
    and "t < now' + 60 * ACCESS_TOKEN_EXPIRE_MINUTES"
  shows "\<exists>u. get_current_user E t d' (tk_access_token r) = Inr u \<and> u \<in> set (users d') \<and>
           u_id u = uuid4 \<and> ur_id (tk_user r) = uuid4 \<and>
           ((\<forall>x\<in>set (users d). u_id x \<noteq> uuid4) \<longrightarrow>
              u_username u = Some (uc_username user_data) \<and>
              u_email u = Some (uc_email user_data))"
proof -
  let ?q = "\<lambda>u. u_email u = Some (uc_email user_data) \<or> u_username u = Some (uc_username user_data)"
  let ?new = "\<lparr>u_id = uuid4, u_username = Some (uc_username user_data),
                u_email = Some (uc_email user_data),
                u_password = get_password_hash E (uc_password user_data),
                u_full_name = uc_full_name user_data, u_created_at = isoformat now\<rparr>"
  let ?pl = "\<lparr>p_sub = Some uuid4, p_exp = Some (now' + 60 * ACCESS_TOKEN_EXPIRE_MINUTES)\<rparr>"
  from assms(1) have nf: "find_one ?q (users d) = None"
    by (auto simp: signup_def split: option.splits if_splits)
  with assms(1) have d': "d' = d\<lparr>users := users d @ [?new]\<rparr>"
    and tok: "tk_access_token r = jwt_encode E ?pl (SECRET_KEY E)"
    and rid: "ur_id (tk_user r) = uuid4"
    by (auto simp: signup_def UserResponse_of_def insert_one_def Let_def
        create_access_token_def)
  from assms(2,3) have dec: "jwt_decode E (jwt_encode E ?pl (SECRET_KEY E)) (SECRET_KEY E) t = Some ?pl"
    by (simp add: jwt_roundtrip_def)
  have "\<exists>x\<in>set (users d'). u_id x = uuid4" by (simp add: d')
  then obtain u where u: "find_one (\<lambda>x. u_id x = uuid4) (users d') = Some u"
    using find_one_None_iff [of "\<lambda>x. u_id x = uuid4" "users d'"] by fastforce
  then have mem: "u \<in> set (users d')" and uid: "u_id u = uuid4"
    using find_one_SomeD [OF u] by simp_all
  have res: "get_current_user E t d' (tk_access_token r) = Inr u"
    by (simp add: get_current_user_def tok dec u)
  have fresh: "(\<forall>x\<in>set (users d). u_id x \<noteq> uuid4) \<longrightarrow>
              u_username u = Some (uc_username user_data) \<and> u_email u = Some (uc_email user_data)"
  proof
    assume "\<forall>x\<in>set (users d). u_id x \<noteq> uuid4"
    with mem uid have "u = ?new" by (auto simp: d')
    then show "u_username u = Some (uc_username user_data) \<and> u_email u = Some (uc_email user_data)"
      by simp
  qed
  from res mem uid rid fresh show ?thesis by blast
qed

text \<open>
  Witness for C4: carol signs up in a store holding alice, with the reference token
  library; one hour later her token resolves to the generated id.
\<close>

theorem signup_token_resolves_witness:
  "jwt_roundtrip ref_env 3600 \<and> (3600 :: int) < 11 + 60 * ACCESS_TOKEN_EXPIRE_MINUTES \<and>
   snd (signup ref_env 10 11 ''u-new'' \<lparr>users = [alice], tasks = []\<rparr>
     \<lparr>uc_username = ''carol'', uc_email = ''c@x.com'', uc_password = ''secret9'',
      uc_full_name = None\<rparr>) =
     Inr \<lparr>tk_access_token = (\<lparr>p_sub = Some ''u-new'', p_exp = Some 86411\<rparr>, SECRET_KEY ref_env),
          tk_token_type = ''bearer'',
          tk_user = \<lparr>ur_id = ''u-new'', ur_username = ''carol'', ur_email = ''c@x.com'',
                     ur_full_name = None, ur_created_at = 10\<rparr>\<rparr> \<and>
   map_sum id u_id (get_current_user ref_env 3600
     (fst (signup ref_env 10 11 ''u-new'' \<lparr>users = [alice], tasks = []\<rparr>
        \<lparr>uc_username = ''carol'', uc_email = ''c@x.com'', uc_password = ''secret9'',
         uc_full_name = None\<rparr>))
     (\<lparr>p_sub = Some ''u-new'', p_exp = Some 86411\<rparr>, SECRET_KEY ref_env)) = Inr ''u-new''"
proof -
  let ?d = "\<lparr>users = [alice], tasks = []\<rparr>"
  let ?ud = "\<lparr>uc_username = ''carol'', uc_email = ''c@x.com'', uc_password = ''secret9'',
              uc_full_name = None\<rparr>"
  let ?r = "\<lparr>tk_access_token = (\<lparr>p_sub = Some ''u-new'', p_exp = Some 86411\<rparr>, SECRET_KEY ref_env),
          tk_token_type = ''bearer'',
          tk_user = \<lparr>ur_id = ''u-new'', ur_username = ''carol'', ur_email = ''c@x.com'',
                     ur_full_name = None, ur_created_at = 10\<rparr>\<rparr>"
  have rt: "jwt_roundtrip ref_env 3600"
    by (simp add: jwt_roundtrip_def ref_env_def ref_decode_def)
  have lt: "(3600 :: int) < 11 + 60 * ACCESS_TOKEN_EXPIRE_MINUTES"
    by (simp add: ACCESS_TOKEN_EXPIRE_MINUTES_def)
  have sn: "snd (signup ref_env 10 11 ''u-new'' ?d ?ud) = Inr ?r"
    by (simp add: signup_def find_one_def alice_def UserResponse_of_def insert_one_def
        create_access_token_def ACCESS_TOKEN_EXPIRE_MINUTES_def isoformat_def ref_env_def)
  have s: "signup ref_env 10 11 ''u-new'' ?d ?ud =
      (fst (signup ref_env 10 11 ''u-new'' ?d ?ud), Inr ?r)"
    using sn by (metis prod.collapse)
  from signup_token_resolves [OF s rt lt] obtain u where
    "get_current_user ref_env 3600 (fst (signup ref_env 10 11 ''u-new'' ?d ?ud))
       (tk_access_token ?r) = Inr u" and "u_id u = ''u-new''"
    by blast
  then have "map_sum id u_id (get_current_user ref_env 3600
      (fst (signup ref_env 10 11 ''u-new'' ?d ?ud))
      (\<lparr>p_sub = Some ''u-new'', p_exp = Some 86411\<rparr>, SECRET_KEY ref_env)) = Inr ''u-new''"
    by simp
  with rt lt sn show ?thesis by blast
qed

subsection \<open>C5: every stored status is one of the three values\<close>

text \<open>
  C5, as evaluated on the code. The claim says that every stored task keeps a status among
  \<open>pending\<close>, \<open>in-progress\<close> and \<open>completed\<close>, also after an update whose body gives
  \<open>status\<close> as \<open>null\<close>. The body \<open>{"status": null}\<close> passes \<open>TaskUpdate\<close>'s validation, is not
  empty, and \<open>update_task\<close> writes it: starting from the empty store, after the owner created
  a task and sent this update, the stored task has \<open>status = null\<close>, and the call itself ends
  with a server error because \<open>TaskResponse\<close> requires a string.
\<close>

theorem update_task_null_status_stored:
  "TaskUpdate_validate
     \<lparr>tu_title = Unset, tu_description = Unset, tu_status = Given None, tu_due_date = Unset\<rparr> \<and>
   update_task_request
     (fst (create_task_request empty_db alice 5 ''t1''
        \<lparr>cb_title = ''buy milk'', cb_description = None, cb_status = Unset, cb_due_date = None\<rparr>))
     alice ''t1''
     \<lparr>tu_title = Unset, tu_description = Unset, tu_status = Given None, tu_due_date = Unset\<rparr> =
   (\<lparr>users = [],
     tasks = [\<lparr>t_id = ''t1'', t_title = Some ''buy milk'', t_description = None,
               t_status = None, t_due_date = None, t_created_at = Iso 5,
               t_user_id = ''u-alice''\<rparr>]\<rparr>,
    Inl ServerError)"
  by (simp add: handler_defs)

subsection \<open>C6: what a task update changes\<close>

lemma set_task_fields:
  "t_id (set_task b t) = t_id t \<and> t_created_at (set_task b t) = t_created_at t \<and>
   t_user_id (set_task b t) = t_user_id t \<and>
   (tu_title b = Unset \<longrightarrow> t_title (set_task b t) = t_title t) \<and>
   (tu_description b = Unset \<longrightarrow> t_description (set_task b t) = t_description t) \<and>
   (tu_status b = Unset \<longrightarrow> t_status (set_task b t) = t_status t) \<and>
   (tu_due_date b = Unset \<longrightarrow> t_due_date (set_task b t) = t_due_date t) \<and>
   (\<forall>v. tu_title b = Given v \<longrightarrow> t_title (set_task b t) = v) \<and>
   (\<forall>v. tu_description b = Given v \<longrightarrow> t_description (set_task b t) = v) \<and>
   (\<forall>v. tu_status b = Given v \<longrightarrow> t_status (set_task b t) = v) \<and>
   (\<forall>v. tu_due_date b = Given v \<longrightarrow> t_due_date (set_task b t) = map_option isoformat v)"
  by (simp add: set_task_def)

lemma update_task_nonempty:
  assumes "find_one (\<lambda>t. t_id t = task_id \<and> t_user_id t = u_id current_user) (tasks d) = Some task"
    and "\<not> task_update_empty b"
  shows "fst (update_task d current_user task_id b) =
           d\<lparr>tasks := update_one (\<lambda>t. t_id t = task_id) (set_task b) (tasks d)\<rparr>"
  using assms by (simp add: update_task_def Let_def split: option.splits)

text \<open>
  C6: \<open>update_task\<close> on a task the caller owns. With an empty body the call fails with
  \<open>BadRequest\<close> and the store is unchanged. With any other body the users are unchanged,
  the task collection keeps its length, and every position holds what it held before or,
  for a task whose id is \<open>task_id\<close>, that task after \<open>set_task\<close>; when task ids are distinct
  the changed task is the owned one, in its place. \<open>set_task\<close> keeps \<open>id\<close>, \<open>created_at\<close>,
  \<open>user_id\<close> and every field the body leaves out, and gives every supplied field the
  supplied value (a supplied \<open>due_date\<close> as its ISO string).
\<close>

theorem update_task_frame:
  assumes owned:
      "find_one (\<lambda>t. t_id t = task_id \<and> t_user_id t = u_id current_user) (tasks d) = Some task"
    and result: "update_task d current_user task_id b = (d', r)"
  shows "(task_update_empty b \<longrightarrow> d' = d \<and> r = Inl (BadRequest ''No fields to update'')) \<and>
         (\<not> task_update_empty b \<longrightarrow>
            users d' = users d \<and> length (tasks d') = length (tasks d) \<and>
            (\<forall>i<length (tasks d).
               tasks d' ! i = tasks d ! i \<or>
               (t_id (tasks d ! i) = task_id \<and> tasks d' ! i = set_task b (tasks d ! i))) \<and>
            (distinct (map t_id (tasks d)) \<longrightarrow>
               (\<exists>ys zs. tasks d = ys @ task # zs \<and> tasks d' = ys @ set_task b task # zs))) \<and>
         (\<forall>t. t_id (set_task b t) = t_id t \<and> t_created_at (set_task b t) = t_created_at t \<and>
              t_user_id (set_task b t) = t_user_id t \<and>
              (tu_title b = Unset \<longrightarrow> t_title (set_task b t) = t_title t) \<and>
              (tu_description b = Unset \<longrightarrow> t_description (set_task b t) = t_description t) \<and>
              (tu_status b = Unset \<longrightarrow> t_status (set_task b t) = t_status t) \<and>
              (tu_due_date b = Unset \<longrightarrow> t_due_date (set_task b t) = t_due_date t) \<and>
              (\<forall>v. tu_title b = Given v \<longrightarrow> t_title (set_task b t) = v) \<and>
              (\<forall>v. tu_description b = Given v \<longrightarrow> t_description (set_task b t) = v) \<and>
              (\<forall>v. tu_status b = Given v \<longrightarrow> t_status (set_task b t) = v) \<and>
              (\<forall>v. tu_due_date b = Given v \<longrightarrow>
                   t_due_date (set_task b t) = map_option isoformat v))"
proof -
  let ?q = "\<lambda>t. t_id t = task_id"
  have p1: "task_update_empty b \<longrightarrow> d' = d \<and> r = Inl (BadRequest ''No fields to update'')"
  proof
    assume "task_update_empty b"
    with owned have "update_task d current_user task_id b =
        (d, Inl (BadRequest ''No fields to update''))"
      by (simp add: update_task_def)
    with result show "d' = d \<and> r = Inl (BadRequest ''No fields to update'')" by simp
  qed
  have p2: "\<not> task_update_empty b \<longrightarrow>
            users d' = users d \<and> length (tasks d') = length (tasks d) \<and>
            (\<forall>i<length (tasks d).
               tasks d' ! i = tasks d ! i \<or>
               (t_id (tasks d ! i) = task_id \<and> tasks d' ! i = set_task b (tasks d ! i))) \<and>
            (distinct (map t_id (tasks d)) \<longrightarrow>
               (\<exists>ys zs. tasks d = ys @ task # zs \<and> tasks d' = ys @ set_task b task # zs))"
  proof
    assume ne: "\<not> task_update_empty b"
    from update_task_nonempty [OF owned ne] result
    have d': "d' = d\<lparr>tasks := update_one ?q (set_task b) (tasks d)\<rparr>" by simp
    have u: "users d' = users d" by (simp add: d')
    have l: "length (tasks d') = length (tasks d)" by (simp add: d' length_update_one)
    have n: "\<forall>i<length (tasks d).
               tasks d' ! i = tasks d ! i \<or>
               (t_id (tasks d ! i) = task_id \<and> tasks d' ! i = set_task b (tasks d ! i))"
    proof (intro allI impI)
      fix i
      assume "i < length (tasks d)"
      from update_one_nth [OF this, of ?q "set_task b"]
      show "tasks d' ! i = tasks d ! i \<or>
               (t_id (tasks d ! i) = task_id \<and> tasks d' ! i = set_task b (tasks d ! i))"
        by (simp add: d')
    qed
    have dist: "distinct (map t_id (tasks d)) \<longrightarrow>
               (\<exists>ys zs. tasks d = ys @ task # zs \<and> tasks d' = ys @ set_task b task # zs)"
    proof
      assume dis: "distinct (map t_id (tasks d))"
      from find_one_split [OF owned] obtain ys zs where
        split: "tasks d = ys @ task # zs" and tid: "t_id task = task_id" by blast
      from dis have "distinct (map t_id (ys @ task # zs))" by (simp only: split)
      then have "t_id task \<notin> t_id ` set ys" by simp
      then have "\<forall>y\<in>set ys. \<not> ?q y" unfolding tid [symmetric] by (metis imageI)
      moreover have "?q task" by (rule tid)
      ultimately have "update_one ?q (set_task b) (ys @ task # zs) = ys @ set_task b task # zs"
        by (rule update_one_split)
      then have "tasks d' = ys @ set_task b task # zs" by (simp add: d' split)
      with split show "\<exists>ys zs. tasks d = ys @ task # zs \<and> tasks d' = ys @ set_task b task # zs"
        by blast
    qed
    show "users d' = users d \<and> length (tasks d') = length (tasks d) \<and>
            (\<forall>i<length (tasks d).
               tasks d' ! i = tasks d ! i \<or>
               (t_id (tasks d ! i) = task_id \<and> tasks d' ! i = set_task b (tasks d ! i))) \<and>
            (distinct (map t_id (tasks d)) \<longrightarrow>
               (\<exists>ys zs. tasks d = ys @ task # zs \<and> tasks d' = ys @ set_task b task # zs))"
      by (intro conjI u l n dist)
  qed
  have p3: "\<forall>t. t_id (set_task b t) = t_id t \<and> t_created_at (set_task b t) = t_created_at t \<and>
              t_user_id (set_task b t) = t_user_id t \<and>
              (tu_title b = Unset \<longrightarrow> t_title (set_task b t) = t_title t) \<and>
              (tu_description b = Unset \<longrightarrow> t_description (set_task b t) = t_description t) \<and>
              (tu_status b = Unset \<longrightarrow> t_status (set_task b t) = t_status t) \<and>
              (tu_due_date b = Unset \<longrightarrow> t_due_date (set_task b t) = t_due_date t) \<and>
              (\<forall>v. tu_title b = Given v \<longrightarrow> t_title (set_task b t) = v) \<and>
              (\<forall>v. tu_description b = Given v \<longrightarrow> t_description (set_task b t) = v) \<and>
              (\<forall>v. tu_status b = Given v \<longrightarrow> t_status (set_task b t) = v) \<and>
              (\<forall>v. tu_due_date b = Given v \<longrightarrow>
                   t_due_date (set_task b t) = map_option isoformat v)"
    by (intro allI) (rule set_task_fields)
  show ?thesis by (intro conjI p1 p2 p3)
qed

text \<open>
  Witness for C6: alice sets the status of her task \<open>t2\<close> to \<open>completed\<close>; bob's task and the
  title of \<open>t2\<close> stay as they were.
\<close>

theorem update_task_frame_witness:
  "find_one (\<lambda>t. t_id t = ''t2'' \<and> t_user_id t = u_id alice)
     (tasks \<lparr>users = [alice, bob],
             tasks = [sample_task ''t1'' ''u-bob'', sample_task ''t2'' ''u-alice'']\<rparr>) =
     Some (sample_task ''t2'' ''u-alice'') \<and>
   \<not> task_update_empty
       \<lparr>tu_title = Unset, tu_description = Unset, tu_status = Given (Some ''completed''),
        tu_due_date = Unset\<rparr> \<and>
   distinct (map t_id [sample_task ''t1'' ''u-bob'', sample_task ''t2'' ''u-alice'']) \<and>
   tasks (fst (update_task
       \<lparr>users = [alice, bob],
        tasks = [sample_task ''t1'' ''u-bob'', sample_task ''t2'' ''u-alice'']\<rparr>
       alice ''t2''
       \<lparr>tu_title = Unset, tu_description = Unset, tu_status = Given (Some ''completed''),
        tu_due_date = Unset\<rparr>)) =
     [sample_task ''t1'' ''u-bob'',
      (sample_task ''t2'' ''u-alice'')\<lparr>t_status := Some ''completed''\<rparr>] \<and>
   t_title (set_task
       \<lparr>tu_title = Unset, tu_description = Unset, tu_status = Given (Some ''completed''),
        tu_due_date = Unset\<rparr> (sample_task ''t2'' ''u-alice'')) = Some ''buy milk''"
proof -
  let ?d = "\<lparr>users = [alice, bob],
             tasks = [sample_task ''t1'' ''u-bob'', sample_task ''t2'' ''u-alice'']\<rparr>"
  let ?b = "\<lparr>tu_title = Unset, tu_description = Unset, tu_status = Given (Some ''completed''),
             tu_due_date = Unset\<rparr>"
  have owned: "find_one (\<lambda>t. t_id t = ''t2'' \<and> t_user_id t = u_id alice) (tasks ?d) =
      Some (sample_task ''t2'' ''u-alice'')"
    by (simp add: find_one_def sample_task_def alice_def)
  have ne: "\<not> task_update_empty ?b" by (simp add: task_update_empty_def)
  have dis: "distinct (map t_id [sample_task ''t1'' ''u-bob'', sample_task ''t2'' ''u-alice''])"
    by (simp add: sample_task_def)
  have res: "update_task ?d alice ''t2'' ?b =
      (fst (update_task ?d alice ''t2'' ?b), snd (update_task ?d alice ''t2'' ?b))"
    by (rule prod.collapse [symmetric])
  have ev: "tasks (fst (update_task ?d alice ''t2'' ?b)) =
      [sample_task ''t1'' ''u-bob'', (sample_task ''t2'' ''u-alice'')\<lparr>t_status := Some ''completed''\<rparr>]"
    by (subst update_task_nonempty [OF owned ne]) (simp add: set_task_def sample_task_def)
  from update_task_frame [OF owned res]
  have "tu_title ?b = Unset \<longrightarrow>
      t_title (set_task ?b (sample_task ''t2'' ''u-alice'')) = t_title (sample_task ''t2'' ''u-alice'')"
    by blast
  then have keep: "t_title (set_task ?b (sample_task ''t2'' ''u-alice'')) = Some ''buy milk''"
    by (simp add: sample_task_def)
  from owned ne dis ev keep show ?thesis by blast
qed

subsection \<open>C7: creating a task\<close>

text \<open>
  C7, the counterexample to the claim as stated: a body with \<open>status = "bogus"\<close> is rejected
  with no state change, but by the validation of the \<open>TaskCreate\<close> model, before the
  handler runs: the error is the framework's request validation error (status 422), not the
  \<open>BadRequest\<close> (status 400) that the handlers raise.
\<close>

theorem create_task_bogus_status_counterexample:
  "create_task_request empty_db alice 5 ''t1''
     \<lparr>cb_title = ''buy milk'', cb_description = None, cb_status = Given (Some ''bogus''),
      cb_due_date = None\<rparr> = (empty_db, Inl RequestValidationError) \<and>
   status_code RequestValidationError = 422 \<and>
   status_code (BadRequest ''Status must be one of: pending, in-progress, completed'') = 400"
  by (simp add: handler_defs status_code_def)

lemma create_task_result:
  "create_task d current_user now uuid4 task_data =
     (d\<lparr>tasks := tasks d @
          [\<lparr>t_id = uuid4, t_title = Some (tc_title task_data),
            t_description = tc_description task_data, t_status = Some (tc_status task_data),
            t_due_date = map_option isoformat (tc_due_date task_data),
            t_created_at = isoformat now, t_user_id = u_id current_user\<rparr>]\<rparr>,
      Inr \<lparr>tr_id = uuid4, tr_title = tc_title task_data,
           tr_description = tc_description task_data, tr_status = tc_status task_data,
           tr_due_date = tc_due_date task_data, tr_created_at = now,
           tr_user_id = u_id current_user\<rparr>)"
  by (cases "tc_due_date task_data")
    (simp_all add: create_task_def insert_one_def TaskResponse_of_def convert_dates_def
      isoformat_def Let_def)

lemma TaskCreate_validate_Some:
  "TaskCreate_validate body = Some task_data \<Longrightarrow>
     tc_title task_data = cb_title body \<and> tc_description task_data = cb_description body \<and>
     tc_due_date task_data = cb_due_date body \<and> tc_status task_data \<in> set allowed_statuses \<and>
     (cb_status body = Unset \<longrightarrow> tc_status task_data = ''pending'') \<and>
     (\<forall>v. cb_status body = Given v \<longrightarrow> v = Some (tc_status task_data))"
  by (auto simp: TaskCreate_validate_def allowed_statuses_def
      split: if_splits field.splits option.splits)

text \<open>
  C7, amended: a body that leaves \<open>status\<close> out and has a title of 1 to 200 characters
  creates a task with status \<open>pending\<close>; a supplied status outside the three values fails
  with the request validation error and leaves the store unchanged; whenever the call
  succeeds, exactly one task is appended, its id is the generated one, its \<open>user_id\<close> is the
  caller's id (the body has no such field) and its status is one of the three values; and
  the only failure of the call is the request validation error, with the store unchanged.
\<close>

theorem create_task_request_outcomes:
  "(cb_status body = Unset \<and> 1 \<le> length (cb_title body) \<and> length (cb_title body) \<le> 200 \<longrightarrow>
      (\<exists>r. create_task_request d current_user now uuid4 body =
             (d\<lparr>tasks := tasks d @
                  [\<lparr>t_id = uuid4, t_title = Some (cb_title body),
                    t_description = cb_description body, t_status = Some ''pending'',
                    t_due_date = map_option isoformat (cb_due_date body),
                    t_created_at = isoformat now, t_user_id = u_id current_user\<rparr>]\<rparr>,
              Inr r) \<and>
           tr_status r = ''pending'' \<and> tr_user_id r = u_id current_user)) \<and>
   (\<forall>v. cb_status body = Given (Some v) \<and> v \<notin> set allowed_statuses \<longrightarrow>
      create_task_request d current_user now uuid4 body = (d, Inl RequestValidationError)) \<and>
   (\<forall>d' r. create_task_request d current_user now uuid4 body = (d', Inr r) \<longrightarrow>
      tr_user_id r = u_id current_user \<and> tr_id r = uuid4 \<and>
      tr_status r \<in> set allowed_statuses \<and> users d' = users d \<and>
      (\<exists>t. tasks d' = tasks d @ [t] \<and> t_id t = uuid4 \<and> t_user_id t = u_id current_user \<and>
           t_status t = Some (tr_status r))) \<and>
   (\<forall>d' e. create_task_request d current_user now uuid4 body = (d', Inl e) \<longrightarrow>
      d' = d \<and> e = RequestValidationError)"
proof -
  let ?res = "create_task_request d current_user now uuid4 body"
  have p1: "cb_status body = Unset \<and> 1 \<le> length (cb_title body) \<and>
      length (cb_title body) \<le> 200 \<longrightarrow>
      (\<exists>r. ?res =
             (d\<lparr>tasks := tasks d @
                  [\<lparr>t_id = uuid4, t_title = Some (cb_title body),
                    t_description = cb_description body, t_status = Some ''pending'',
                    t_due_date = map_option isoformat (cb_due_date body),
                    t_created_at = isoformat now, t_user_id = u_id current_user\<rparr>]\<rparr>,
              Inr r) \<and>
           tr_status r = ''pending'' \<and> tr_user_id r = u_id current_user)"
  proof
    assume a: "cb_status body = Unset \<and> 1 \<le> length (cb_title body) \<and>
      length (cb_title body) \<le> 200"
    then have v: "TaskCreate_validate body =
        Some \<lparr>tc_title = cb_title body, tc_description = cb_description body,
              tc_status = ''pending'', tc_due_date = cb_due_date body\<rparr>"
      by (cases "cb_title body") (simp_all add: TaskCreate_validate_def)
    show "\<exists>r. ?res =
             (d\<lparr>tasks := tasks d @
                  [\<lparr>t_id = uuid4, t_title = Some (cb_title body),
                    t_description = cb_description body, t_status = Some ''pending'',
                    t_due_date = map_option isoformat (cb_due_date body),
                    t_created_at = isoformat now, t_user_id = u_id current_user\<rparr>]\<rparr>,
              Inr r) \<and>
           tr_status r = ''pending'' \<and> tr_user_id r = u_id current_user"
      by (simp add: create_task_request_def v create_task_result)
  qed
  have p2: "\<forall>v. cb_status body = Given (Some v) \<and> v \<notin> set allowed_statuses \<longrightarrow>
      ?res = (d, Inl RequestValidationError)"
    by (auto simp: create_task_request_def TaskCreate_validate_def)
  have p3: "\<forall>d' r. ?res = (d', Inr r) \<longrightarrow>
      tr_user_id r = u_id current_user \<and> tr_id r = uuid4 \<and>
      tr_status r \<in> set allowed_statuses \<and> users d' = users d \<and>
      (\<exists>t. tasks d' = tasks d @ [t] \<and> t_id t = uuid4 \<and> t_user_id t = u_id current_user \<and>
           t_status t = Some (tr_status r))"
  proof (intro allI impI)
    fix d' r
    assume res: "?res = (d', Inr r)"
    show "tr_user_id r = u_id current_user \<and> tr_id r = uuid4 \<and>
      tr_status r \<in> set allowed_statuses \<and> users d' = users d \<and>
      (\<exists>t. tasks d' = tasks d @ [t] \<and> t_id t = uuid4 \<and> t_user_id t = u_id current_user \<and>
           t_status t = Some (tr_status r))"
    proof (cases "TaskCreate_validate body")
      case None
      with res show ?thesis by (simp add: create_task_request_def)
    next
      case (Some task_data)
      from TaskCreate_validate_Some [OF Some]
      have st: "tc_status task_data \<in> set allowed_statuses" by simp
      from res Some have "create_task d current_user now uuid4 task_data = (d', Inr r)"
        by (simp add: create_task_request_def)
      then have d': "d' = d\<lparr>tasks := tasks d @
          [\<lparr>t_id = uuid4, t_title = Some (tc_title task_data),
            t_description = tc_description task_data, t_status = Some (tc_status task_data),
            t_due_date = map_option isoformat (tc_due_date task_data),
            t_created_at = isoformat now, t_user_id = u_id current_user\<rparr>]\<rparr>"
        and r: "r = \<lparr>tr_id = uuid4, tr_title = tc_title task_data,
           tr_description = tc_description task_data, tr_status = tc_status task_data,
           tr_due_date = tc_due_date task_data, tr_created_at = now,
           tr_user_id = u_id current_user\<rparr>"
        by (simp_all add: create_task_result)
      from st show ?thesis by (simp add: d' r)
    qed
  qed
  have p4: "\<forall>d' e. ?res = (d', Inl e) \<longrightarrow> d' = d \<and> e = RequestValidationError"
  proof (intro allI impI)
    fix d' e
    assume res: "?res = (d', Inl e)"
    show "d' = d \<and> e = RequestValidationError"
    proof (cases "TaskCreate_validate body")
      case None
      with res show ?thesis by (auto simp: create_task_request_def)
    next
      case (Some task_data)
      with res show ?thesis by (simp add: create_task_request_def create_task_result)
    qed
  qed
  show ?thesis by (intro conjI p1 p2 p3 p4)
qed

text \<open>
  Witness for C7: alice creates a task without a status, then sends the status \<open>bogus\<close>.
\<close>

theorem create_task_request_outcomes_witness:
  "create_task_request \<lparr>users = [alice, bob], tasks = [sample_task ''t1'' ''u-bob'']\<rparr> alice 5 ''t2''
     \<lparr>cb_title = ''call home'', cb_description = None, cb_status = Unset, cb_due_date = Some 9\<rparr> =
     (\<lparr>users = [alice, bob],
       tasks = [sample_task ''t1'' ''u-bob'',
                \<lparr>t_id = ''t2'', t_title = Some ''call home'', t_description = None,
                 t_status = Some ''pending'', t_due_date = Some (Iso 9), t_created_at = Iso 5,
                 t_user_id = ''u-alice''\<rparr>]\<rparr>,
      Inr \<lparr>tr_id = ''t2'', tr_title = ''call home'', tr_description = None,
           tr_status = ''pending'', tr_due_date = Some 9, tr_created_at = 5,
           tr_user_id = ''u-alice''\<rparr>) \<and>
   ''bogus'' \<notin> set allowed_statuses \<and>
   create_task_request \<lparr>users = [alice, bob], tasks = [sample_task ''t1'' ''u-bob'']\<rparr> alice 5 ''t2''
     \<lparr>cb_title = ''call home'', cb_description = None, cb_status = Given (Some ''bogus''),
      cb_due_date = None\<rparr> =
     (\<lparr>users = [alice, bob], tasks = [sample_task ''t1'' ''u-bob'']\<rparr>,
      Inl RequestValidationError)"
proof -
  let ?d = "\<lparr>users = [alice, bob], tasks = [sample_task ''t1'' ''u-bob'']\<rparr>"
  let ?b1 = "\<lparr>cb_title = ''call home'', cb_description = None, cb_status = Unset,
              cb_due_date = Some 9\<rparr>"
  let ?b2 = "\<lparr>cb_title = ''call home'', cb_description = None,
              cb_status = Given (Some ''bogus''), cb_due_date = None\<rparr>"
  have bogus: "''bogus'' \<notin> set allowed_statuses" by (simp add: allowed_statuses_def)
  from create_task_request_outcomes [of ?b1 ?d alice 5 "''t2''"]
  obtain r where r1: "create_task_request ?d alice 5 ''t2'' ?b1 =
      (?d\<lparr>tasks := tasks ?d @
            [\<lparr>t_id = ''t2'', t_title = Some (cb_title ?b1),
              t_description = cb_description ?b1, t_status = Some ''pending'',
              t_due_date = map_option isoformat (cb_due_date ?b1),
              t_created_at = isoformat 5, t_user_id = u_id alice\<rparr>]\<rparr>, Inr r)"
    by auto
  have r2: "snd (create_task_request ?d alice 5 ''t2'' ?b1) =
      Inr \<lparr>tr_id = ''t2'', tr_title = ''call home'', tr_description = None,
           tr_status = ''pending'', tr_due_date = Some 9, tr_created_at = 5,
           tr_user_id = ''u-alice''\<rparr>"
    by (simp add: create_task_request_def TaskCreate_validate_def create_task_result alice_def)
  from r1 r2 have first: "create_task_request ?d alice 5 ''t2'' ?b1 =
     (\<lparr>users = [alice, bob],
       tasks = [sample_task ''t1'' ''u-bob'',
                \<lparr>t_id = ''t2'', t_title = Some ''call home'', t_description = None,
                 t_status = Some ''pending'', t_due_date = Some (Iso 9), t_created_at = Iso 5,
                 t_user_id = ''u-alice''\<rparr>]\<rparr>,
      Inr \<lparr>tr_id = ''t2'', tr_title = ''call home'', tr_description = None,
           tr_status = ''pending'', tr_due_date = Some 9, tr_created_at = 5,
           tr_user_id = ''u-alice''\<rparr>)"
    by (simp add: isoformat_def alice_def)
  from create_task_request_outcomes [of ?b2 ?d alice 5 "''t2''"] bogus
  have second: "create_task_request ?d alice 5 ''t2'' ?b2 = (?d, Inl RequestValidationError)"
    by simp
  from first bogus second show ?thesis by (intro conjI)
qed

subsection \<open>C8: listing tasks\<close>

text \<open>
  What \<open>get_tasks\<close> computes: the caller's tasks (with the requested status, under one of
  the three values), the first 1000 of them in stored order, each turned into a
  \<open>TaskResponse\<close>; a filter that is neither empty nor one of the three values fails with
  \<open>BadRequest\<close>. When every stored task has a string title and status the listing succeeds.
  On the way, two places where the handler is more lenient than a strict reading: the empty
  string as filter is taken as no filter (\<open>if status_filter:\<close>), and of 1001 owned tasks
  1000 are listed (\<open>to_list(1000)\<close>).
\<close>

lemma many_tasks_owned:
  "filter (\<lambda>t. t_user_id t = owner) (many_tasks n owner) = many_tasks n owner"
  by (simp add: many_tasks_def sample_task_def)

lemma length_many_tasks: "length (many_tasks n owner) = n"
  by (simp add: many_tasks_def)

lemma List_TaskResponse_Inr_iff:
  "List_TaskResponse ts = Inr rs \<longleftrightarrow> map TaskResponse_of ts = map Inr rs"
proof (induction ts arbitrary: rs)
  case Nil
  then show ?case by auto
next
  case (Cons t ts)
  show ?case by (cases rs) (auto simp: Cons.IH [symmetric] split: sum.splits)
qed

lemma List_TaskResponse_Inl:
  "List_TaskResponse ts = Inl e \<Longrightarrow>
     e = ServerError \<and> (\<exists>t\<in>set ts. t_title t = None \<or> t_status t = None)"
proof (induction ts)
  case Nil
  then show ?case by simp
next
  case (Cons t ts)
  then show ?case
    by (auto simp: TaskResponse_of_def split: sum.splits option.splits)
qed

lemma List_TaskResponse_length:
  "\<forall>t\<in>set ts. t_title t \<noteq> None \<and> t_status t \<noteq> None \<Longrightarrow>
     map_sum id length (List_TaskResponse ts) = Inr (length ts)"
proof (induction ts)
  case Nil
  then show ?case by simp
next
  case (Cons t ts)
  then show ?case
    by (auto simp: TaskResponse_of_def split: sum.splits option.splits)
qed

lemma get_tasks_cases:
  "get_tasks d current_user None =
     List_TaskResponse (map convert_dates
       (take 1000 (filter (\<lambda>t. t_user_id t = u_id current_user) (tasks d)))) \<and>
   get_tasks d current_user (Some []) = get_tasks d current_user None \<and>
   (sf \<in> set allowed_statuses \<longrightarrow>
      get_tasks d current_user (Some sf) =
        List_TaskResponse (map convert_dates
          (take 1000 (filter (\<lambda>t. t_user_id t = u_id current_user \<and> t_status t = Some sf)
                        (tasks d))))) \<and>
   (sf \<noteq> [] \<and> sf \<notin> set allowed_statuses \<longrightarrow>
      get_tasks d current_user (Some sf) =
        Inl (BadRequest ''Invalid status. Must be one of: pending, in-progress, completed''))"
  by (auto simp: get_tasks_def find_to_list_def allowed_statuses_def)

lemma get_tasks_listed:
  assumes "get_tasks d current_user None = Inr rs"
  shows "map TaskResponse_of (map convert_dates
           (take 1000 (filter (\<lambda>t. t_user_id t = u_id current_user) (tasks d)))) = map Inr rs"
  using assms by (simp add: get_tasks_def find_to_list_def List_TaskResponse_Inr_iff)

lemma get_tasks_valid_records:
  assumes "\<forall>t\<in>set (tasks d). t_title t \<noteq> None \<and> t_status t \<noteq> None"
  shows "\<exists>rs. get_tasks d current_user None = Inr rs \<and>
           map TaskResponse_of (map convert_dates
             (take 1000 (filter (\<lambda>t. t_user_id t = u_id current_user) (tasks d)))) = map Inr rs"
proof -
  let ?ts = "map convert_dates
      (take 1000 (filter (\<lambda>t. t_user_id t = u_id current_user) (tasks d)))"
  have "\<forall>t\<in>set ?ts. t_title t \<noteq> None \<and> t_status t \<noteq> None"
  proof
    fix t
    assume "t \<in> set ?ts"
    then obtain x where
      x: "x \<in> set (take 1000 (filter (\<lambda>t. t_user_id t = u_id current_user) (tasks d)))"
      and t: "t = convert_dates x" by auto
    from x have "x \<in> set (filter (\<lambda>t. t_user_id t = u_id current_user) (tasks d))"
      by (rule in_set_takeD)
    then have "x \<in> set (tasks d)" by simp
    with assms have "t_title x \<noteq> None \<and> t_status x \<noteq> None" by blast
    with t show "t_title t \<noteq> None \<and> t_status t \<noteq> None" by (simp add: convert_dates_def)
  qed
  from List_TaskResponse_length [OF this]
  obtain rs where rs: "List_TaskResponse ?ts = Inr rs"
    by (cases "List_TaskResponse ?ts") simp_all
  then have "get_tasks d current_user None = Inr rs"
    by (simp add: get_tasks_def find_to_list_def)
  moreover from rs have "map TaskResponse_of ?ts = map Inr rs"
    by (simp add: List_TaskResponse_Inr_iff)
  ultimately show ?thesis by blast
qed

lemma get_tasks_empty_filter_and_cap:
  "get_tasks \<lparr>users = [alice], tasks = [sample_task ''t1'' ''u-alice'']\<rparr> alice (Some []) =
     Inr [\<lparr>tr_id = ''t1'', tr_title = ''buy milk'', tr_description = None,
           tr_status = ''pending'', tr_due_date = None, tr_created_at = 2,
           tr_user_id = ''u-alice''\<rparr>] \<and>
   length (filter (\<lambda>t. t_user_id t = u_id alice) (many_tasks 1001 ''u-alice'')) = 1001 \<and>
   map_sum id length (get_tasks \<lparr>users = [alice], tasks = many_tasks 1001 ''u-alice''\<rparr> alice None)
     = Inr 1000"
proof -
  have a: "u_id alice = ''u-alice''" by (simp add: alice_def)
  have e: "get_tasks \<lparr>users = [alice], tasks = [sample_task ''t1'' ''u-alice'']\<rparr> alice (Some []) =
     Inr [\<lparr>tr_id = ''t1'', tr_title = ''buy milk'', tr_description = None,
           tr_status = ''pending'', tr_due_date = None, tr_created_at = 2,
           tr_user_id = ''u-alice''\<rparr>]"
    by (simp add: get_tasks_def find_to_list_def a sample_task_def convert_dates_def
        TaskResponse_of_def)
  have l: "length (filter (\<lambda>t. t_user_id t = u_id alice) (many_tasks 1001 ''u-alice'')) = 1001"
    by (simp add: a many_tasks_owned length_many_tasks)
  have v: "\<forall>t\<in>set (map convert_dates (take 1000 (many_tasks 1001 ''u-alice''))).
      t_title t \<noteq> None \<and> t_status t \<noteq> None"
  proof
    fix t
    assume "t \<in> set (map convert_dates (take 1000 (many_tasks 1001 ''u-alice'')))"
    then obtain x where x: "x \<in> set (take 1000 (many_tasks 1001 ''u-alice''))"
      and t: "t = convert_dates x" by auto
    from x have "x \<in> set (many_tasks 1001 ''u-alice'')" by (rule in_set_takeD)
    then have "t_title x \<noteq> None \<and> t_status x \<noteq> None"
      by (auto simp: many_tasks_def sample_task_def)
    with t show "t_title t \<noteq> None \<and> t_status t \<noteq> None" by (simp add: convert_dates_def)
  qed
  have c: "map_sum id length
      (get_tasks \<lparr>users = [alice], tasks = many_tasks 1001 ''u-alice''\<rparr> alice None) = Inr 1000"
    using List_TaskResponse_length [OF v]
    by (simp add: get_tasks_def find_to_list_def a many_tasks_owned length_many_tasks)
  show ?thesis by (intro conjI e l c)
qed

text \<open>
  C8, as evaluated on the code. The claim says that without a filter the result contains
  exactly the caller's tasks, in any state. After the owner's accepted update
  \<open>{"status": null}\<close> her task is stored with \<open>status = null\<close>; it is still hers, but no
  \<open>TaskResponse\<close> can be built from it, and the listing ends with a server error instead
  of returning it.
\<close>

theorem get_tasks_null_status_server_error:
  "filter (\<lambda>t. t_user_id t = u_id alice)
     (tasks (fst (update_task_request
        (fst (create_task_request empty_db alice 5 ''t1''
           \<lparr>cb_title = ''buy milk'', cb_description = None, cb_status = Unset, cb_due_date = None\<rparr>))
        alice ''t1''
        \<lparr>tu_title = Unset, tu_description = Unset, tu_status = Given None, tu_due_date = Unset\<rparr>))) =
     [\<lparr>t_id = ''t1'', t_title = Some ''buy milk'', t_description = None,
       t_status = None, t_due_date = None, t_created_at = Iso 5,
       t_user_id = ''u-alice''\<rparr>] \<and>
   get_tasks
     (fst (update_task_request
        (fst (create_task_request empty_db alice 5 ''t1''
           \<lparr>cb_title = ''buy milk'', cb_description = None, cb_status = Unset, cb_due_date = None\<rparr>))
        alice ''t1''
        \<lparr>tu_title = Unset, tu_description = Unset, tu_status = Given None, tu_due_date = Unset\<rparr>))
     alice None = Inl ServerError"
  by (simp add: handler_defs get_tasks_def find_to_list_def)

subsection \<open>C9: deleting a profile deletes its tasks\<close>

lemma delete_user_profile_result:
  "delete_user_profile d current_user =
     (\<lparr>users = fst (delete_one (\<lambda>u. u_id u = u_id current_user) (users d)),
       tasks = filter (\<lambda>t. t_user_id t \<noteq> u_id current_user) (tasks d)\<rparr>,
      Inr ''User profile and all associated tasks deleted successfully'')"
  by (simp add: delete_user_profile_def delete_many_def Let_def)

lemma get_task_after_cascade:
  assumes dis: "distinct (map t_id c)"
    and t: "t \<in> set c" and own: "t_user_id t = uid"
  shows "get_task \<lparr>users = us, tasks = filter (\<lambda>x. t_user_id x \<noteq> uid) c\<rparr> caller (t_id t) =
           Inl (NotFound ''Task not found'')"
proof -
  from dis have inj: "inj_on t_id (set c)" by (simp add: distinct_map)
  have "\<not> (t_id x = t_id t \<and> t_user_id x = u_id caller)"
    if x: "x \<in> set (filter (\<lambda>x. t_user_id x \<noteq> uid) c)" for x
  proof
    assume a: "t_id x = t_id t \<and> t_user_id x = u_id caller"
    from x have xc: "x \<in> set c" and xu: "t_user_id x \<noteq> uid" by simp_all
    from a have "t_id x = t_id t" by simp
    with inj xc t have "x = t" by (simp add: inj_on_def)
    with xu own show False by simp
  qed
  then show ?thesis by (simp add: get_task_NotFound_iff)
qed

text \<open>
  C9: \<open>delete_user_profile\<close> called by a stored user (the record that identity resolution
  found under its id). The tasks are deleted first, then the user. Afterwards the task
  collection is the old one without the tasks of that user, so no task of that user is
  left and the tasks of every other user are as they were, in their order; the user
  collection is the old one without the caller's record; with distinct user ids no record
  with the caller's id is left; and with distinct task ids \<open>get_task\<close> on the id of any
  deleted task answers \<open>NotFound\<close>, whoever asks.
\<close>

theorem delete_user_profile_cascade:
  assumes caller: "find_one (\<lambda>u. u_id u = u_id current_user) (users d) = Some current_user"
    and result: "delete_user_profile d current_user = (d', r)"
  shows "r = Inr ''User profile and all associated tasks deleted successfully'' \<and>
         tasks d' = filter (\<lambda>t. t_user_id t \<noteq> u_id current_user) (tasks d) \<and>
         (\<forall>t\<in>set (tasks d'). t_user_id t \<noteq> u_id current_user) \<and>
         (\<exists>ys zs. users d = ys @ current_user # zs \<and> users d' = ys @ zs) \<and>
         (distinct (map u_id (users d)) \<longrightarrow>
            (\<forall>u\<in>set (users d'). u_id u \<noteq> u_id current_user)) \<and>
         (distinct (map t_id (tasks d)) \<longrightarrow>
            (\<forall>t someone. t \<in> set (tasks d) \<and> t_user_id t = u_id current_user \<longrightarrow>
               get_task d' someone (t_id t) = Inl (NotFound ''Task not found'')))"
proof -
  let ?q = "\<lambda>u. u_id u = u_id current_user"
  from result have d': "d' = \<lparr>users = fst (delete_one ?q (users d)),
       tasks = filter (\<lambda>t. t_user_id t \<noteq> u_id current_user) (tasks d)\<rparr>"
    and r: "r = Inr ''User profile and all associated tasks deleted successfully''"
    by (simp_all add: delete_user_profile_result)
  have ts: "tasks d' = filter (\<lambda>t. t_user_id t \<noteq> u_id current_user) (tasks d)"
    by (simp add: d')
  have none: "\<forall>t\<in>set (tasks d'). t_user_id t \<noteq> u_id current_user"
    by (simp add: ts)
  from find_one_split [OF caller] obtain ys zs where
    split: "users d = ys @ current_user # zs" and before: "\<forall>y\<in>set ys. \<not> ?q y" by blast
  have "?q current_user" by simp
  with before have "delete_one ?q (ys @ current_user # zs) = (ys @ zs, 1)"
    by (rule delete_one_split)
  then have us': "users d' = ys @ zs" by (simp add: d' split)
  from split us' have us: "\<exists>ys zs. users d = ys @ current_user # zs \<and> users d' = ys @ zs"
    by blast
  have gone: "distinct (map u_id (users d)) \<longrightarrow>
      (\<forall>u\<in>set (users d'). u_id u \<noteq> u_id current_user)"
  proof
    assume "distinct (map u_id (users d))"
    then have "distinct (map u_id (ys @ current_user # zs))" by (simp only: split)
    then have "u_id current_user \<notin> u_id ` set (ys @ zs)" by auto
    then show "\<forall>u\<in>set (users d'). u_id u \<noteq> u_id current_user"
      unfolding us' by (metis imageI)
  qed
  have get: "distinct (map t_id (tasks d)) \<longrightarrow>
      (\<forall>t someone. t \<in> set (tasks d) \<and> t_user_id t = u_id current_user \<longrightarrow>
         get_task d' someone (t_id t) = Inl (NotFound ''Task not found''))"
  proof (intro impI allI)
    fix t someone
    assume dis: "distinct (map t_id (tasks d))"
      and a: "t \<in> set (tasks d) \<and> t_user_id t = u_id current_user"
    from a have t: "t \<in> set (tasks d)" and own: "t_user_id t = u_id current_user"
      by simp_all
    from get_task_after_cascade [OF dis t own]
    show "get_task d' someone (t_id t) = Inl (NotFound ''Task not found'')"
      by (simp add: d')
  qed
  show ?thesis by (intro conjI r ts none us gone get)
qed

text \<open>
  Witness for C9: alice, stored after bob and owning two of three tasks, deletes her
  profile; bob and his task remain, and bob's request for her task \<open>t3\<close> finds nothing.
\<close>

theorem delete_user_profile_cascade_witness:
  "find_one (\<lambda>u. u_id u = u_id alice)
     (users \<lparr>users = [bob, alice],
             tasks = [sample_task ''t1'' ''u-alice'', sample_task ''t2'' ''u-bob'',
                      sample_task ''t3'' ''u-alice'']\<rparr>) = Some alice \<and>
   distinct (map u_id [bob, alice]) \<and>
   distinct (map t_id [sample_task ''t1'' ''u-alice'', sample_task ''t2'' ''u-bob'',
                       sample_task ''t3'' ''u-alice'']) \<and>
   delete_user_profile
     \<lparr>users = [bob, alice],
      tasks = [sample_task ''t1'' ''u-alice'', sample_task ''t2'' ''u-bob'',
               sample_task ''t3'' ''u-alice'']\<rparr> alice =
     (\<lparr>users = [bob], tasks = [sample_task ''t2'' ''u-bob'']\<rparr>,
      Inr ''User profile and all associated tasks deleted successfully'') \<and>
   get_task \<lparr>users = [bob], tasks = [sample_task ''t2'' ''u-bob'']\<rparr> bob ''t3'' =
     Inl (NotFound ''Task not found'')"
proof -
  let ?c = "[sample_task ''t1'' ''u-alice'', sample_task ''t2'' ''u-bob'',
             sample_task ''t3'' ''u-alice'']"
  let ?d = "\<lparr>users = [bob, alice], tasks = ?c\<rparr>"
  let ?d' = "\<lparr>users = [bob], tasks = [sample_task ''t2'' ''u-bob'']\<rparr>"
  let ?r = "Inr ''User profile and all associated tasks deleted successfully''"
  have a: "u_id alice = ''u-alice''" by (simp add: alice_def)
  have caller: "find_one (\<lambda>u. u_id u = u_id alice) (users ?d) = Some alice"
    by (simp add: find_one_def alice_def bob_def)
  have du: "distinct (map u_id [bob, alice])" by (simp add: alice_def bob_def)
  have dt: "distinct (map t_id ?c)" by (simp add: sample_task_def)
  have res: "delete_user_profile ?d alice = (?d', ?r)"
    by (simp add: delete_user_profile_result a bob_def sample_task_def)
  have t3: "sample_task ''t3'' ''u-alice'' \<in> set (tasks ?d) \<and>
      t_user_id (sample_task ''t3'' ''u-alice'') = u_id alice"
    by (simp add: a sample_task_def)
  from dt have dt': "distinct (map t_id (tasks ?d))" by simp
  from delete_user_profile_cascade [OF caller res] dt' t3
  have "get_task ?d' bob (t_id (sample_task ''t3'' ''u-alice'')) =
      Inl (NotFound ''Task not found'')"
    by blast
  then have get: "get_task ?d' bob ''t3'' = Inl (NotFound ''Task not found'')"
    by (simp add: sample_task_def)
  show ?thesis by (intro conjI caller du dt res get)
qed

subsection \<open>C10: minimum password length\<close>

text \<open>
  C10: a signup whose password has fewer than 6 characters, and a profile update that
  supplies such a password, fail the validation of the request model, so the request is
  answered with the request validation error and the store is unchanged. Six characters are
  enough: a signup body with a username of 3 to 50 characters, an accepted e-mail address
  and a password of at least 6 characters passes validation, and so does a profile update
  that supplies only such a password.
\<close>

theorem short_password_rejected:
  "(length (uc_password body) < 6 \<longrightarrow>
      UserCreate_validate E body = None \<and>
      signup_request E now now' uuid4 d body = (d, Inl RequestValidationError)) \<and>
   (\<forall>pw. uu_password ub = Given (Some pw) \<and> length pw < 6 \<longrightarrow>
      UserUpdate_validate E ub = None \<and>
      update_user_profile_request E d current_user ub = (d, Inl RequestValidationError)) \<and>
   (\<forall>email. 3 \<le> length (uc_username body) \<and> length (uc_username body) \<le> 50 \<and>
      EmailStr E (uc_email body) = Some email \<and> 6 \<le> length (uc_password body) \<longrightarrow>
      UserCreate_validate E body = Some (body\<lparr>uc_email := email\<rparr>)) \<and>
   (\<forall>pw. uu_username ub = Unset \<and> uu_email ub = Unset \<and>
      uu_password ub = Given (Some pw) \<and> 6 \<le> length pw \<longrightarrow>
      UserUpdate_validate E ub = Some ub)"
proof -
  have p1: "length (uc_password body) < 6 \<longrightarrow>
      UserCreate_validate E body = None \<and>
      signup_request E now now' uuid4 d body = (d, Inl RequestValidationError)"
  proof
    assume short: "length (uc_password body) < 6"
    then have v: "UserCreate_validate E body = None"
      by (simp add: UserCreate_validate_def split: option.splits)
    then show "UserCreate_validate E body = None \<and>
      signup_request E now now' uuid4 d body = (d, Inl RequestValidationError)"
      by (simp add: signup_request_def)
  qed
  have p2: "\<forall>pw. uu_password ub = Given (Some pw) \<and> length pw < 6 \<longrightarrow>
      UserUpdate_validate E ub = None \<and>
      update_user_profile_request E d current_user ub = (d, Inl RequestValidationError)"
  proof (intro allI impI)
    fix pw
    assume short: "uu_password ub = Given (Some pw) \<and> length pw < 6"
    then have v: "UserUpdate_validate E ub = None"
      by (simp add: UserUpdate_validate_def)
    then show "UserUpdate_validate E ub = None \<and>
      update_user_profile_request E d current_user ub = (d, Inl RequestValidationError)"
      by (simp add: update_user_profile_request_def)
  qed
  have p3: "\<forall>email. 3 \<le> length (uc_username body) \<and> length (uc_username body) \<le> 50 \<and>
      EmailStr E (uc_email body) = Some email \<and> 6 \<le> length (uc_password body) \<longrightarrow>
      UserCreate_validate E body = Some (body\<lparr>uc_email := email\<rparr>)"
    by (simp add: UserCreate_validate_def)
  have p4: "\<forall>pw. uu_username ub = Unset \<and> uu_email ub = Unset \<and>
      uu_password ub = Given (Some pw) \<and> 6 \<le> length pw \<longrightarrow>
      UserUpdate_validate E ub = Some ub"
    by (simp add: UserUpdate_validate_def)
  show ?thesis by (intro conjI p1 p2 p3 p4)
qed

text \<open>
  Witness for C10: the password \<open>12345\<close> is rejected at signup and at profile update, and
  \<open>123456\<close> passes the validation of a profile update.
\<close>

theorem short_password_rejected_witness:
  "length (uc_password \<lparr>uc_username = ''carol'', uc_email = ''c@x.com'', uc_password = ''12345'',
                        uc_full_name = None\<rparr>) < 6 \<and>
   signup_request ref_env 10 11 ''u-new'' \<lparr>users = [alice], tasks = []\<rparr>
     \<lparr>uc_username = ''carol'', uc_email = ''c@x.com'', uc_password = ''12345'',
      uc_full_name = None\<rparr> =
     (\<lparr>users = [alice], tasks = []\<rparr>, Inl RequestValidationError) \<and>
   length ''12345'' < 6 \<and>
   update_user_profile_request ref_env \<lparr>users = [alice], tasks = []\<rparr> alice
     \<lparr>uu_username = Unset, uu_email = Unset, uu_full_name = Unset,
      uu_password = Given (Some ''12345'')\<rparr> =
     (\<lparr>users = [alice], tasks = []\<rparr>, Inl RequestValidationError) \<and>
   6 \<le> length ''123456'' \<and>
   UserUpdate_validate ref_env
     \<lparr>uu_username = Unset, uu_email = Unset, uu_full_name = Unset,
      uu_password = Given (Some ''123456'')\<rparr> =
     Some \<lparr>uu_username = Unset, uu_email = Unset, uu_full_name = Unset,
           uu_password = Given (Some ''123456'')\<rparr>"
proof -
  let ?d = "\<lparr>users = [alice], tasks = []\<rparr>"
  let ?body = "\<lparr>uc_username = ''carol'', uc_email = ''c@x.com'', uc_password = ''12345'',
                uc_full_name = None\<rparr>"
  let ?ub = "\<lparr>uu_username = Unset, uu_email = Unset, uu_full_name = Unset,
              uu_password = Given (Some ''12345'')\<rparr>"
  let ?ub6 = "\<lparr>uu_username = Unset, uu_email = Unset, uu_full_name = Unset,
               uu_password = Given (Some ''123456'')\<rparr>"
  have s1: "length (uc_password ?body) < 6" by simp
  have s2: "length ''12345'' < 6" by simp
  have s3: "6 \<le> length ''123456''" by simp
  from short_password_rejected [of ?body ref_env 10 11 "''u-new''" ?d ?ub alice] s1
  have a: "signup_request ref_env 10 11 ''u-new'' ?d ?body = (?d, Inl RequestValidationError)"
    by blast
  have "uu_password ?ub = Given (Some ''12345'') \<and> length ''12345'' < 6" by simp
  with short_password_rejected [of ?body ref_env 10 11 "''u-new''" ?d ?ub alice]
  have b: "update_user_profile_request ref_env ?d alice ?ub = (?d, Inl RequestValidationError)"
    by blast
  have "uu_username ?ub6 = Unset \<and> uu_email ?ub6 = Unset \<and>
      uu_password ?ub6 = Given (Some ''123456'') \<and> 6 \<le> length ''123456''" by simp
  with short_password_rejected [of ?body ref_env 10 11 "''u-new''" ?d ?ub6 alice]
  have c: "UserUpdate_validate ref_env ?ub6 = Some ?ub6"
    by blast
  show ?thesis by (intro conjI s1 a s2 b s3 c)
qed

end
